theory Spec2Isabelle
  imports Complex_Main "HOL-Library.AList"
begin

section \<open>Weighted ensemble classifier (foot\_models/arch\_model.py)\<close>

text \<open>
  Python floats are modelled as \<^typ>\<open>real\<close>: every constant of the source is a decimal
  fraction and every test is a comparison, so the thresholds read as the source writes them.
  A Python dict is an association list in insertion order (the order \<open>items()\<close> iterates in),
  looked up with \<^const>\<open>map_of\<close> and stored with \<^const>\<open>AList.update\<close>, which keeps the
  position of a key that is already present, as a dict does.
\<close>

text \<open>
  One entry of \<open>classification_results\<close>: the dict a sub-method returns. Only the keys
  \<open>classification\<close> and \<open>confidence\<close> are read by the ensemble; a key that is absent is
  \<open>None\<close>.
\<close>

record method_result =
  classification :: "string option"
  confidence :: "real option"

type_synonym classification_results = "(string \<times> method_result) list"
type_synonym weight_table = "(string \<times> real) list"
type_synonym vote_table = "(string \<times> real) list"

text \<open>The vote table of \<open>_determine_overall_arch_type\<close>, in its declared order.\<close>

definition votes_init :: vote_table where
  "votes_init = [(''flat_feet'', 0), (''normal_arch'', 0), (''high_arch'', 0)]"

text \<open>
  The body of the vote-collecting loop:
  \<^verbatim>\<open>
  if method in weights:
      classification = result.get("classification")
      confidence = result.get("confidence", 0.7)
      weight = weights[method]
      if classification in votes:
          votes[classification] += weight * confidence
  \<close>
\<close>

definition collect_vote :: "weight_table \<Rightarrow> vote_table \<Rightarrow> string \<times> method_result \<Rightarrow> vote_table" where
  "collect_vote weights votes entry =
     (case map_of weights (fst entry) of
        None \<Rightarrow> votes
      | Some weight \<Rightarrow>
          (case classification (snd entry) of
             None \<Rightarrow> votes
           | Some c \<Rightarrow>
               (case map_of votes c of
                  None \<Rightarrow> votes
                | Some v \<Rightarrow>
                    AList.update c
                      (v + weight * (case confidence (snd entry) of None \<Rightarrow> 0.7 | Some x \<Rightarrow> x))
                      votes)))"

text \<open>
  Python's \<open>max(items, key=lambda x: x[1])\<close>: the first item whose value is maximal (a later
  item replaces the running best only when strictly greater); \<open>ValueError\<close> on an empty
  sequence is \<open>None\<close>.
\<close>

fun max_from :: "'a \<times> ('b::linorder) \<Rightarrow> ('a \<times> 'b) list \<Rightarrow> 'a \<times> 'b" where
  "max_from best [] = best"
| "max_from best (x # xs) = max_from (if snd best < snd x then x else best) xs"

definition py_max_by_value :: "('a \<times> ('b::linorder)) list \<Rightarrow> ('a \<times> 'b) option" where
  "py_max_by_value items = (case items of [] \<Rightarrow> None | x # xs \<Rightarrow> Some (max_from x xs))"

text \<open>
  \<open>ArchTypeModel._determine_overall_arch_type\<close>. The result is \<open>None\<close> where the source
  would raise (an empty vote table, or the winner missing from it); the theorems below show
  that this never happens.
\<close>

definition determine_overall_arch_type ::
    "classification_results \<Rightarrow> weight_table \<Rightarrow> (string \<times> real) option" where
  "determine_overall_arch_type classifications weights =
     (let votes = foldl (collect_vote weights) votes_init classifications in
      case py_max_by_value votes of
        None \<Rightarrow> None
      | Some winner \<Rightarrow>
          (let condition = fst winner;
               total_weight = sum_list (map snd weights)
           in case (if total_weight > 0
                    then map_option (\<lambda>v. v / total_weight) (map_of votes condition)
                    else Some 0.7) of
                None \<Rightarrow> None
              | Some conf \<Rightarrow> Some (condition, max 0.6 (min 0.95 conf))))"

text \<open>
  The counting loop of \<open>_boost_confidence_with_agreement_analysis\<close>; the state is
  \<open>(classification_counts, total_methods)\<close>:
  \<^verbatim>\<open>
  if "classification" in result:
      classification = result["classification"]
      if classification not in classification_counts:
          classification_counts[classification] = 0
      classification_counts[classification] += 1
      total_methods += 1
  \<close>
\<close>

definition count_classification ::
    "(string \<times> nat) list \<times> nat \<Rightarrow> string \<times> method_result \<Rightarrow> (string \<times> nat) list \<times> nat" where
  "count_classification st entry =
     (case classification (snd entry) of
        None \<Rightarrow> st
      | Some c \<Rightarrow>
          (AList.update c ((case map_of (fst st) c of None \<Rightarrow> 0 | Some n \<Rightarrow> n) + 1) (fst st),
           snd st + 1))"

text \<open>\<open>ArchTypeModel._boost_confidence_with_agreement_analysis\<close>.\<close>

definition boost_confidence_with_agreement_analysis ::
    "classification_results \<Rightarrow> real \<Rightarrow> real" where
  "boost_confidence_with_agreement_analysis classification_results base_confidence =
     (let st = foldl count_classification ([], 0) classification_results;
          classification_counts = fst st;
          total_methods = snd st
      in case py_max_by_value classification_counts of
           None \<Rightarrow> base_confidence
         | Some most_common \<Rightarrow>
             if total_methods > 0 then
               (let agreement_percentage = real (snd most_common) / real total_methods;
                    confidence_boost =
                      (if agreement_percentage > 0.8 then 0.1
                       else if agreement_percentage > 0.6 then 0.05
                       else 0)
                in min 0.95 (base_confidence + confidence_boost))
             else base_confidence)"

text \<open>
  The two calls of \<open>ArchTypeModel.analyze\<close> that make up the classifier:
  \<^verbatim>\<open>
  condition, confidence = self._determine_overall_arch_type(classification_results, weights)
  confidence = self._boost_confidence_with_agreement_analysis(classification_results, confidence)
  \<close>
\<close>

definition classify :: "classification_results \<Rightarrow> weight_table \<Rightarrow> (string \<times> real) option" where
  "classify classification_results weights =
     (case determine_overall_arch_type classification_results weights of
        None \<Rightarrow> None
      | Some r \<Rightarrow>
          Some (fst r, boost_confidence_with_agreement_analysis classification_results (snd r)))"

text \<open>The weight table \<open>ArchTypeModel.analyze\<close> passes.\<close>

definition arch_weights :: weight_table where
  "arch_weights =
     [(''arch_height_index'', 0.25), (''medial_arch_angle'', 0.20),
      (''chippaux_smirak_index'', 0.15), (''navicular_drop'', 0.15),
      (''arch_rigidity'', 0.10), (''dynamic_arch_response'', 0.15)]"

text \<open>
  The labels the counting loop sees, in order: the \<open>classification\<close> of every result that
  has one. Used to state what the loop computes.
\<close>

definition raw_classifications :: "classification_results \<Rightarrow> string list" where
  "raw_classifications rs = List.map_filter (\<lambda>entry. classification (snd entry)) rs"

text \<open>
  The agreement boost as the specification words it (section 4.1, step 5): the share of
  results whose raw classification equals the \<^emph>\<open>winner\<close> of the weighted vote. This
  definition follows the specification, not the source; it is only compared with
  \<^const>\<open>boost_confidence_with_agreement_analysis\<close>, on a collection that is not empty.
\<close>

definition spec_agreement_boost :: "classification_results \<Rightarrow> string \<Rightarrow> real \<Rightarrow> real" where
  "spec_agreement_boost results winner base_confidence =
     (let agreement =
            real (length (filter (\<lambda>entry. classification (snd entry) = Some winner) results))
              / real (length results)
      in min 0.95 (base_confidence +
                    (if agreement > 0.8 then 0.1 else if agreement > 0.6 then 0.05 else 0)))"

section \<open>Strings\<close>

text \<open>
  Strings are byte strings. \<open>str.lower()\<close> is modelled on ASCII: the letters \<open>A\<close>..\<open>Z\<close>
  map to \<open>a\<close>..\<open>z\<close>, every other byte is kept. \<open>needle in haystack\<close> on strings is the
  substring test.
\<close>

definition lower_char :: "char \<Rightarrow> char" where
  "lower_char c =
     (let n = (of_char c :: nat) in if 65 \<le> n \<and> n \<le> 90 then char_of (n + 32) else c)"

definition lower :: "string \<Rightarrow> string" where
  "lower s = map lower_char s"

fun starts_with :: "string \<Rightarrow> string \<Rightarrow> bool" where
  "starts_with [] s = True"
| "starts_with (p # ps) [] = False"
| "starts_with (p # ps) (c # cs) = (p = c \<and> starts_with ps cs)"

fun contains :: "string \<Rightarrow> string \<Rightarrow> bool" where
  "contains needle [] = (needle = [])"
| "contains needle (c # cs) = (starts_with needle (c # cs) \<or> contains needle cs)"

section \<open>Recommendation rule engine (diagnosis\_rules.py)\<close>

text \<open>
  The \<open>recommendations\<close> dict of \<open>apply_medical_rules\<close>. The source keeps \<open>flags\<close> in a
  local dict and stores it under \<open>recommendations["flags"]\<close> just before returning; nothing
  reads that key in between, so the model keeps the flags in the record from the start.
\<close>

record recommendations =
  intrinsic :: "string list"
  extrinsic :: "string list"
  confidence_scores :: "string \<rightharpoonup> real"
  flags :: "string \<rightharpoonup> bool"
  primary_recommendations :: "string list"
  secondary_recommendations :: "string list"
  combined_list :: "string list"

definition recommendations_init :: recommendations where
  "recommendations_init =
     \<lparr>intrinsic = [], extrinsic = [], confidence_scores = Map.empty, flags = Map.empty,
      primary_recommendations = [], secondary_recommendations = [], combined_list = []\<rparr>"

text \<open>
  The \<open>category\<close> argument: every call in the source passes the literal \<open>"intrinsic"\<close> or
  \<open>"extrinsic"\<close>.
\<close>

datatype category = Intrinsic | Extrinsic

definition category_list :: "category \<Rightarrow> recommendations \<Rightarrow> string list" where
  "category_list cat r = (case cat of Intrinsic \<Rightarrow> intrinsic r | Extrinsic \<Rightarrow> extrinsic r)"

definition category_append :: "category \<Rightarrow> string \<Rightarrow> recommendations \<Rightarrow> recommendations" where
  "category_append cat rec_name r =
     (case cat of
        Intrinsic \<Rightarrow> r\<lparr>intrinsic := intrinsic r @ [rec_name]\<rparr>
      | Extrinsic \<Rightarrow> r\<lparr>extrinsic := extrinsic r @ [rec_name]\<rparr>)"

text \<open>
  The closure \<open>add_recommendation\<close>:
  \<^verbatim>\<open>
  if rec_name not in recommendations[category]:
      recommendations[category].append(rec_name)
      recommendations["confidence_scores"][rec_name] = confidence
      recommendations["combined_list"].append(rec_name)
      if primary:
          if rec_name not in recommendations["primary_recommendations"]:
              recommendations["primary_recommendations"].append(rec_name)
      else:
          if rec_name not in recommendations["secondary_recommendations"]:
              recommendations["secondary_recommendations"].append(rec_name)
  \<close>
\<close>

definition add_recommendation ::
    "string \<Rightarrow> category \<Rightarrow> real \<Rightarrow> bool \<Rightarrow> recommendations \<Rightarrow> recommendations" where
  "add_recommendation rec_name cat conf is_primary r =
     (if rec_name \<in> set (category_list cat r) then r
      else
        (let r1 = category_append cat rec_name r;
             r2 = r1\<lparr>confidence_scores := (confidence_scores r1)(rec_name \<mapsto> conf)\<rparr>;
             r3 = r2\<lparr>combined_list := combined_list r2 @ [rec_name]\<rparr>
         in if is_primary then
              (if rec_name \<in> set (primary_recommendations r3) then r3
               else r3\<lparr>primary_recommendations := primary_recommendations r3 @ [rec_name]\<rparr>)
            else
              (if rec_name \<in> set (secondary_recommendations r3) then r3
               else r3\<lparr>secondary_recommendations := secondary_recommendations r3 @ [rec_name]\<rparr>)))"

definition set_flag :: "string \<Rightarrow> recommendations \<Rightarrow> recommendations" where
  "set_flag flag r = r\<lparr>flags := (flags r)(flag \<mapsto> True)\<rparr>"

text \<open>
  The keys of \<open>patient_context\<close> that the rules read, with the defaults of their \<open>.get\<close>
  calls. \<open>None\<close> stands for a context that is \<open>None\<close> or an empty dict (both are falsy in
  \<open>if patient_context:\<close>). The keys \<open>age\<close>, \<open>weight\<close>, \<open>activity_level\<close> and
  \<open>previous_orthotics\<close> are copied into \<open>patient_factors\<close>, which no rule reads.
\<close>

record patient_context =
  medical_history :: "string list"
  previous_foot_pain :: bool
  leg_length_discrepancy :: bool
  ulcer_history :: bool

text \<open>One entry of the add-on tables: \<open>{"name", "category", "confidence", "primary"}\<close>.\<close>

record addon =
  name :: string
  category :: category
  addon_confidence :: real
  primary :: bool

definition add_addon :: "recommendations \<Rightarrow> addon \<Rightarrow> recommendations" where
  "add_addon r rec =
     add_recommendation (name rec) (category rec) (addon_confidence rec) (primary rec) r"

text \<open>Arch type based recommendations (the first \<open>if/elif\<close> chain).\<close>

definition arch_rules ::
    "string \<Rightarrow> int \<Rightarrow> patient_context option \<Rightarrow> recommendations \<Rightarrow> recommendations" where
  "arch_rules arch_type arch_degree ctx r =
     (if arch_type = ''Normal Arch'' then
        (if (case ctx of None \<Rightarrow> False | Some c \<Rightarrow> previous_foot_pain c)
         then add_recommendation ''AS (Arch Support)'' Intrinsic 0.70 False r
         else r)
      else if arch_type = ''Flat Arch'' then
        (if arch_degree = 1 then
           add_recommendation ''AS (Arch Support)'' Intrinsic 0.75 True r
         else if arch_degree = 2 then
           add_recommendation ''MAS (Medial Arch Support)'' Intrinsic 0.80 True
             (add_recommendation ''AS (Arch Support)'' Intrinsic 0.85 True r)
         else if arch_degree = 3 then
           add_recommendation ''NAS (Navicular Arch Support)'' Intrinsic 0.85 True
             (add_recommendation ''MAS (Medial Arch Support)'' Intrinsic 0.90 True r)
         else if arch_degree = 4 then
           set_flag ''severe_pes_planus''
             (add_recommendation ''NAS (Navicular Arch Support)'' Intrinsic 0.95 True
               (add_recommendation ''MAS (Medial Arch Support)'' Intrinsic 0.95 True r))
         else r)
      else if arch_type = ''High Arch'' then
        (let r1 = (if arch_degree \<ge> 2
                   then add_recommendation ''Soft Cushioning'' Intrinsic 0.80 True r else r);
             r2 = (if arch_degree \<ge> 3
                   then add_recommendation ''Metatarsal Pad'' Intrinsic 0.80 False
                          (add_recommendation ''Heel Cushion Pad'' Intrinsic 0.85 True r1)
                   else r1)
         in if arch_degree = 4 then set_flag ''severe_pes_cavus'' r2 else r2)
      else r)"

text \<open>Alignment-based wedges and posting: forefoot, midfoot, hindfoot.\<close>

definition forefoot_rules ::
    "int \<Rightarrow> (string \<rightharpoonup> string) \<Rightarrow> recommendations \<Rightarrow> recommendations" where
  "forefoot_rules arch_degree alignment r =
     (if alignment ''forefoot'' = Some ''valgus'' then
        (let confidence_val = 0.75 + 0.05 * real_of_int arch_degree;
             r1 = add_recommendation ''Anterior Medial Wedge'' Extrinsic confidence_val True r
         in if arch_degree \<ge> 3
            then add_recommendation ''SAW (Supinator Anterior Wedge)'' Extrinsic 0.85
                   (arch_degree \<ge> 3) r1
            else r1)
      else if alignment ''forefoot'' = Some ''varus'' then
        (let confidence_val = 0.75 + 0.05 * real_of_int arch_degree;
             r1 = add_recommendation ''Anterior Lateral Wedge'' Extrinsic confidence_val True r
         in if arch_degree \<ge> 3
            then add_recommendation ''PAW (Pronator Anterior Wedge)'' Extrinsic 0.85
                   (arch_degree \<ge> 3) r1
            else r1)
      else r)"

definition midfoot_rules ::
    "string \<Rightarrow> int \<Rightarrow> (string \<rightharpoonup> string) \<Rightarrow> recommendations \<Rightarrow> recommendations" where
  "midfoot_rules arch_type arch_degree alignment r =
     (if alignment ''midfoot'' = Some ''valgus'' then
        (let confidence_val = 0.75 + 0.05 * real_of_int arch_degree;
             r1 = add_recommendation ''MAS (Medial Arch Support)'' Intrinsic confidence_val True r
         in if arch_degree \<ge> 2
            then add_recommendation ''NAS (Navicular Arch Support)'' Intrinsic 0.85 True r1
            else r1)
      else if alignment ''midfoot'' = Some ''varus'' then
        (if contains ''High Arch'' arch_type
         then add_recommendation ''AS (Arch Support)'' Intrinsic 0.75 True r
         else r)
      else r)"

definition hindfoot_rules ::
    "int \<Rightarrow> (string \<rightharpoonup> string) \<Rightarrow> recommendations \<Rightarrow> recommendations" where
  "hindfoot_rules arch_degree alignment r =
     (if alignment ''hindfoot'' = Some ''valgus'' then
        (let confidence_val = 0.75 + 0.05 * real_of_int arch_degree;
             r1 = add_recommendation ''Posterior Medial Wedge'' Extrinsic confidence_val True r
         in if arch_degree \<ge> 3
            then add_recommendation ''SPW (Supinator Posterior Wedge)'' Extrinsic 0.85 True r1
            else r1)
      else if alignment ''hindfoot'' = Some ''varus'' then
        (let confidence_val = 0.75 + 0.05 * real_of_int arch_degree;
             r1 = add_recommendation ''Posterior Lateral Wedge'' Extrinsic confidence_val True r
         in if arch_degree \<ge> 3
            then add_recommendation ''PPW (Pronator Posterior Wedge)'' Extrinsic 0.85 True r1
            else r1)
      else r)"

text \<open>The two static tables, in the source's order.\<close>

definition pathology_map :: "(string \<times> addon list) list" where
  "pathology_map =
     [(''Claw Toe'',
        [\<lparr>name = ''Toe Crest'', category = Intrinsic, addon_confidence = 0.85, primary = True\<rparr>,
         \<lparr>name = ''Cushioning'', category = Intrinsic, addon_confidence = 0.80, primary = False\<rparr>]),
      (''Hammer Toe'',
        [\<lparr>name = ''Toe Crest'', category = Intrinsic, addon_confidence = 0.85, primary = True\<rparr>,
         \<lparr>name = ''Toe Loop'', category = Extrinsic, addon_confidence = 0.75, primary = False\<rparr>]),
      (''Mallet Toe'',
        [\<lparr>name = ''Toe Crest'', category = Intrinsic, addon_confidence = 0.80, primary = True\<rparr>]),
      (''Tennis Toe'',
        [\<lparr>name = ''Toe part Cushioning'', category = Intrinsic, addon_confidence = 0.75, primary = True\<rparr>]),
      (''Skiers Toe'',
        [\<lparr>name = ''Toe part Cushioning'', category = Intrinsic, addon_confidence = 0.75, primary = True\<rparr>]),
      (''Turf Toe'',
        [\<lparr>name = ''MP'', category = Intrinsic, addon_confidence = 0.85, primary = True\<rparr>,
         \<lparr>name = ''MPL'', category = Intrinsic, addon_confidence = 0.80, primary = False\<rparr>,
         \<lparr>name = ''Morton's Extension'', category = Extrinsic, addon_confidence = 0.90, primary = True\<rparr>]),
      (''Hallux Valgus'',
        [\<lparr>name = ''AS'', category = Intrinsic, addon_confidence = 0.70, primary = False\<rparr>,
         \<lparr>name = ''Anterior Medial Wedge'', category = Extrinsic, addon_confidence = 0.85, primary = True\<rparr>,
         \<lparr>name = ''Hallux Separator'', category = Intrinsic, addon_confidence = 0.80, primary = True\<rparr>]),
      (''Hallux Rigidus'',
        [\<lparr>name = ''Morton's to toe Extension (Stiff plate)'', category = Extrinsic, addon_confidence = 0.95, primary = True\<rparr>,
         \<lparr>name = ''Kinetic Wedge'', category = Extrinsic, addon_confidence = 0.85, primary = True\<rparr>]),
      (''Hallux Limitus'',
        [\<lparr>name = ''Morton's Extension'', category = Extrinsic, addon_confidence = 0.90, primary = True\<rparr>,
         \<lparr>name = ''Rocker Sole'', category = Extrinsic, addon_confidence = 0.85, primary = False\<rparr>]),
      (''Metatarsalgia'',
        [\<lparr>name = ''MP'', category = Intrinsic, addon_confidence = 0.90, primary = True\<rparr>,
         \<lparr>name = ''MPL'', category = Intrinsic, addon_confidence = 0.85, primary = True\<rparr>,
         \<lparr>name = ''Metatarsal Bar'', category = Extrinsic, addon_confidence = 0.80, primary = False\<rparr>]),
      (''Bunion Pain'',
        [\<lparr>name = ''AS'', category = Intrinsic, addon_confidence = 0.70, primary = False\<rparr>,
         \<lparr>name = ''Anterior Medial Wedge'', category = Extrinsic, addon_confidence = 0.85, primary = True\<rparr>,
         \<lparr>name = ''Bunion Shield'', category = Intrinsic, addon_confidence = 0.90, primary = True\<rparr>]),
      (''Bunionette'',
        [\<lparr>name = ''5th Met Head Relief'', category = Intrinsic, addon_confidence = 0.90, primary = True\<rparr>,
         \<lparr>name = ''Lateral Forefoot Spacer'', category = Intrinsic, addon_confidence = 0.85, primary = False\<rparr>]),
      (''Morton Neuroma'',
        [\<lparr>name = ''MP'', category = Intrinsic, addon_confidence = 0.90, primary = True\<rparr>,
         \<lparr>name = ''MPL'', category = Intrinsic, addon_confidence = 0.85, primary = True\<rparr>,
         \<lparr>name = ''Metatarsal Bar'', category = Extrinsic, addon_confidence = 0.80, primary = False\<rparr>,
         \<lparr>name = ''Neuroma Pad'', category = Intrinsic, addon_confidence = 0.95, primary = True\<rparr>]),
      (''Sesamoiditis'',
        [\<lparr>name = ''Sesamoid Relief Pad'', category = Intrinsic, addon_confidence = 0.95, primary = True\<rparr>,
         \<lparr>name = ''1st Met Head Off-loading'', category = Intrinsic, addon_confidence = 0.90, primary = True\<rparr>]),
      (''Midfoot Arthritis'',
        [\<lparr>name = ''AS'', category = Intrinsic, addon_confidence = 0.85, primary = True\<rparr>,
         \<lparr>name = ''Fascia Groove'', category = Intrinsic, addon_confidence = 0.80, primary = False\<rparr>,
         \<lparr>name = ''Carbon Plate'', category = Intrinsic, addon_confidence = 0.90, primary = True\<rparr>]),
      (''Arch Pain'',
        [\<lparr>name = ''AS'', category = Intrinsic, addon_confidence = 0.90, primary = True\<rparr>,
         \<lparr>name = ''Arch Cushioning'', category = Intrinsic, addon_confidence = 0.85, primary = False\<rparr>]),
      (''Kohler's disease'',
        [\<lparr>name = ''NAS'', category = Intrinsic, addon_confidence = 0.95, primary = True\<rparr>,
         \<lparr>name = ''Navicular Off-loading'', category = Intrinsic, addon_confidence = 0.90, primary = True\<rparr>]),
      (''Peroneal Tendon Enteropathy'',
        [\<lparr>name = ''Posterior Lateral Wedge'', category = Extrinsic, addon_confidence = 0.85, primary = True\<rparr>,
         \<lparr>name = ''Lateral Border Support'', category = Intrinsic, addon_confidence = 0.80, primary = False\<rparr>]),
      (''Cuboid Syndrome'',
        [\<lparr>name = ''Valgus cuboid pad'', category = Intrinsic, addon_confidence = 0.90, primary = True\<rparr>,
         \<lparr>name = ''Cuboid Off-Load'', category = Intrinsic, addon_confidence = 0.90, primary = True\<rparr>,
         \<lparr>name = ''Lateral Midfoot Support'', category = Intrinsic, addon_confidence = 0.80, primary = False\<rparr>]),
      (''Accessory Navicular'',
        [\<lparr>name = ''NAS'', category = Intrinsic, addon_confidence = 0.90, primary = True\<rparr>,
         \<lparr>name = ''Posterior Medial Wedge'', category = Extrinsic, addon_confidence = 0.85, primary = True\<rparr>,
         \<lparr>name = ''Navicular Relief Cut-out'', category = Intrinsic, addon_confidence = 0.95, primary = True\<rparr>]),
      (''Navicular Pain'',
        [\<lparr>name = ''NAS'', category = Intrinsic, addon_confidence = 0.85, primary = True\<rparr>,
         \<lparr>name = ''Posterior Medial Wedge'', category = Extrinsic, addon_confidence = 0.80, primary = False\<rparr>,
         \<lparr>name = ''Navicular Off-loading'', category = Intrinsic, addon_confidence = 0.90, primary = True\<rparr>]),
      (''Lisfranc Injury'',
        [\<lparr>name = ''Carbon Plate'', category = Intrinsic, addon_confidence = 0.95, primary = True\<rparr>,
         \<lparr>name = ''AS'', category = Intrinsic, addon_confidence = 0.85, primary = True\<rparr>,
         \<lparr>name = ''Rigid Midfoot Support'', category = Intrinsic, addon_confidence = 0.90, primary = True\<rparr>]),
      (''Plantar Fasciitis'',
        [\<lparr>name = ''Heel Cushion Pad'', category = Intrinsic, addon_confidence = 0.90, primary = True\<rparr>,
         \<lparr>name = ''Fascia Groove'', category = Intrinsic, addon_confidence = 0.85, primary = True\<rparr>,
         \<lparr>name = ''Calcaneal Spur Accommodation'', category = Intrinsic, addon_confidence = 0.80, primary = False\<rparr>]),
      (''Heel Spur'',
        [\<lparr>name = ''Heel Spur Pad'', category = Intrinsic, addon_confidence = 0.95, primary = True\<rparr>,
         \<lparr>name = ''Calcaneal Spur Accommodation'', category = Intrinsic, addon_confidence = 0.90, primary = True\<rparr>]),
      (''Posterior Tibialis Tendinitis'',
        [\<lparr>name = ''AS'', category = Intrinsic, addon_confidence = 0.85, primary = True\<rparr>,
         \<lparr>name = ''MAS'', category = Intrinsic, addon_confidence = 0.90, primary = True\<rparr>,
         \<lparr>name = ''Medial Heel Wedge'', category = Extrinsic, addon_confidence = 0.85, primary = True\<rparr>]),
      (''Tarsal Tunnel Syndrome'',
        [\<lparr>name = ''AS'', category = Intrinsic, addon_confidence = 0.80, primary = False\<rparr>,
         \<lparr>name = ''Heel Lift Pad'', category = Intrinsic, addon_confidence = 0.85, primary = True\<rparr>,
         \<lparr>name = ''Medial Arch Relief'', category = Intrinsic, addon_confidence = 0.90, primary = True\<rparr>]),
      (''Calcaneus Fx'',
        [\<lparr>name = ''Heel Lift Pad'', category = Intrinsic, addon_confidence = 0.95, primary = True\<rparr>,
         \<lparr>name = ''Total Contact Orthotic'', category = Intrinsic, addon_confidence = 0.90, primary = True\<rparr>]),
      (''Heel Fat Pad Atrophy'',
        [\<lparr>name = ''Heel Cushion Pad'', category = Intrinsic, addon_confidence = 0.95, primary = True\<rparr>,
         \<lparr>name = ''Shock Absorbing Heel'', category = Extrinsic, addon_confidence = 0.90, primary = True\<rparr>]),
      (''Achilles Tendinitis'',
        [\<lparr>name = ''Heel Cushion Pad'', category = Intrinsic, addon_confidence = 0.85, primary = True\<rparr>,
         \<lparr>name = ''Heel Lift Pad'', category = Intrinsic, addon_confidence = 0.90, primary = True\<rparr>,
         \<lparr>name = ''Achilles Notch'', category = Extrinsic, addon_confidence = 0.80, primary = False\<rparr>]),
      (''Haglund's Deformity'',
        [\<lparr>name = ''Heel Lift Pad'', category = Intrinsic, addon_confidence = 0.85, primary = True\<rparr>,
         \<lparr>name = ''Achilles Notch'', category = Extrinsic, addon_confidence = 0.95, primary = True\<rparr>,
         \<lparr>name = ''Heel Cup'', category = Intrinsic, addon_confidence = 0.90, primary = True\<rparr>]),
      (''Sever's Disease'',
        [\<lparr>name = ''Heel Lift Pad'', category = Intrinsic, addon_confidence = 0.90, primary = True\<rparr>,
         \<lparr>name = ''Heel Cushion Pad'', category = Intrinsic, addon_confidence = 0.90, primary = True\<rparr>,
         \<lparr>name = ''Achilles Notch'', category = Extrinsic, addon_confidence = 0.85, primary = False\<rparr>])]"

definition other_conditions_map :: "(string \<times> addon list) list" where
  "other_conditions_map =
     [(''Abnormal peak pressure'',
        [\<lparr>name = ''Soft Cushioning'', category = Intrinsic, addon_confidence = 0.85, primary = True\<rparr>,
         \<lparr>name = ''Pressure Relief Pad'', category = Intrinsic, addon_confidence = 0.90, primary = True\<rparr>]),
      (''Callus and Pain Point'',
        [\<lparr>name = ''Soft Cushioning'', category = Intrinsic, addon_confidence = 0.85, primary = True\<rparr>,
         \<lparr>name = ''Off-Loading'', category = Intrinsic, addon_confidence = 0.90, primary = True\<rparr>,
         \<lparr>name = ''Pressure Relief Pad'', category = Intrinsic, addon_confidence = 0.90, primary = True\<rparr>]),
      (''Ulcer'',
        [\<lparr>name = ''Off-Loading'', category = Intrinsic, addon_confidence = 0.95, primary = True\<rparr>,
         \<lparr>name = ''Total Contact Orthotic'', category = Intrinsic, addon_confidence = 0.90, primary = True\<rparr>,
         \<lparr>name = ''Ulcer Relief Aperture'', category = Intrinsic, addon_confidence = 0.95, primary = True\<rparr>]),
      (''Toe/Foot Part Amputation'',
        [\<lparr>name = ''Toe filler'', category = Intrinsic, addon_confidence = 0.95, primary = True\<rparr>,
         \<lparr>name = ''Amputation Accommodation'', category = Intrinsic, addon_confidence = 0.95, primary = True\<rparr>,
         \<lparr>name = ''Rocker Sole'', category = Extrinsic, addon_confidence = 0.90, primary = True\<rparr>]),
      (''Leg Length Discrepancy'',
        [\<lparr>name = ''Heel Height Pad'', category = Extrinsic, addon_confidence = 0.95, primary = True\<rparr>,
         \<lparr>name = ''Full Length Lift'', category = Extrinsic, addon_confidence = 0.90, primary = False\<rparr>]),
      (''Charcot Foot'',
        [\<lparr>name = ''Total Contact Orthotic'', category = Intrinsic, addon_confidence = 0.95, primary = True\<rparr>,
         \<lparr>name = ''Rocker Sole'', category = Extrinsic, addon_confidence = 0.90, primary = True\<rparr>,
         \<lparr>name = ''Pressure Distribution Insole'', category = Intrinsic, addon_confidence = 0.90, primary = True\<rparr>]),
      (''Diabetes with Neuropathy'',
        [\<lparr>name = ''Total Contact Orthotic'', category = Intrinsic, addon_confidence = 0.95, primary = True\<rparr>,
         \<lparr>name = ''Soft Cushioning'', category = Intrinsic, addon_confidence = 0.90, primary = True\<rparr>,
         \<lparr>name = ''Pressure Redistribution'', category = Intrinsic, addon_confidence = 0.95, primary = True\<rparr>])]"

text \<open>
  \<^verbatim>\<open>
  for condition in detected_pathologies:
      condition_recs = pathology_map.get(condition, [])
      for rec in condition_recs:
          add_recommendation(rec["name"], rec["category"], rec["confidence"], rec["primary"], ...)
  \<close>
\<close>

definition table_get :: "(string \<times> addon list) list \<Rightarrow> string \<Rightarrow> addon list" where
  "table_get table condition = (case map_of table condition of None \<Rightarrow> [] | Some recs \<Rightarrow> recs)"

definition pathology_rules :: "string list \<Rightarrow> recommendations \<Rightarrow> recommendations" where
  "pathology_rules detected_pathologies r =
     foldl (\<lambda>r condition. foldl add_addon r (table_get pathology_map condition))
       r detected_pathologies"

text \<open>
  The \<open>other_conditions\<close> dict after the detection logic, in its declared order, and the
  flag \<open>high_risk_foot\<close> that the same logic sets. Membership of a history entry is list
  membership of the exact lower-cased string, as in
  \<open>"diabetes" in [x.lower() for x in patient_context.get("medical_history", [])]\<close>.
\<close>

definition history_lower :: "patient_context \<Rightarrow> string list" where
  "history_lower c = map lower (medical_history c)"

definition other_conditions ::
    "int \<Rightarrow> string list \<Rightarrow> patient_context option \<Rightarrow> (string \<times> bool) list" where
  "other_conditions arch_degree detected_pathologies ctx =
     [(''Abnormal peak pressure'', ''Metatarsalgia'' \<in> set detected_pathologies),
      (''Callus and Pain Point'',
         ''Plantar Fasciitis'' \<in> set detected_pathologies \<and> arch_degree \<ge> 3),
      (''Ulcer'',
         (case ctx of None \<Rightarrow> False
          | Some c \<Rightarrow> ulcer_history c \<or> ''ulcer'' \<in> set (history_lower c))),
      (''Toe/Foot Part Amputation'',
         (case ctx of None \<Rightarrow> False | Some c \<Rightarrow> ''amputation'' \<in> set (history_lower c))),
      (''Leg Length Discrepancy'',
         (case ctx of None \<Rightarrow> False | Some c \<Rightarrow> leg_length_discrepancy c)),
      (''Charcot Foot'',
         (case ctx of None \<Rightarrow> False | Some c \<Rightarrow> ''charcot'' \<in> set (history_lower c))),
      (''Diabetes with Neuropathy'',
         (case ctx of None \<Rightarrow> False
          | Some c \<Rightarrow> ''diabetes'' \<in> set (history_lower c)
                      \<and> ''neuropathy'' \<in> set (history_lower c)))]"

definition high_risk_foot :: "patient_context option \<Rightarrow> bool" where
  "high_risk_foot ctx =
     (case ctx of None \<Rightarrow> False
      | Some c \<Rightarrow>
          (''diabetes'' \<in> set (history_lower c) \<and> ''neuropathy'' \<in> set (history_lower c))
          \<or> ''charcot'' \<in> set (history_lower c)
          \<or> ulcer_history c \<or> ''ulcer'' \<in> set (history_lower c))"

definition other_condition_rules ::
    "int \<Rightarrow> string list \<Rightarrow> patient_context option \<Rightarrow> recommendations \<Rightarrow> recommendations" where
  "other_condition_rules arch_degree detected_pathologies ctx r =
     (let r1 = (if high_risk_foot ctx then set_flag ''high_risk_foot'' r else r)
      in foldl (\<lambda>r entry.
                  if snd entry then foldl add_addon r (table_get other_conditions_map (fst entry))
                  else r)
           r1 (other_conditions arch_degree detected_pathologies ctx))"

text \<open>\<open>apply_medical_rules\<close>: the phases in the order of the source.\<close>

definition apply_medical_rules ::
    "string \<Rightarrow> int \<Rightarrow> (string \<rightharpoonup> string) \<Rightarrow> string list \<Rightarrow> patient_context option
      \<Rightarrow> recommendations" where
  "apply_medical_rules arch_type arch_degree alignment detected_pathologies ctx =
     other_condition_rules arch_degree detected_pathologies ctx
       (pathology_rules detected_pathologies
         (hindfoot_rules arch_degree alignment
           (midfoot_rules arch_type arch_degree alignment
             (forefoot_rules arch_degree alignment
               (arch_rules arch_type arch_degree ctx recommendations_init)))))"

section \<open>Model results and the normalising wrapper (foot\_models/base\_model.py)\<close>

text \<open>
  The dict a specialised model returns, with the keys that the wrapper writes and the
  aggregator reads; a key that is absent is \<open>None\<close> (for the two nested dicts: the empty
  map, which is what \<open>.get(key, {})\<close> makes of an absent key). In \<open>zone_alignment\<close> a zone
  whose entry is missing or an empty dict is \<open>None\<close>, since the source only tests
  \<open>not zone_specific\<close>. The key \<open>error\<close> holds a dict in the error record of the wrapper
  (field \<open>error\<close>) and the text \<open>str(e)\<close> in the error dict of the aggregator's model loop
  (field \<open>error_text\<close>); the key \<open>confidence\<close> is the field \<open>result_confidence\<close>.
\<close>

record error_info =
  error_type :: string
  error_message :: string
  error_model_name :: string
  error_execution_time :: real
  error_timestamp :: real
  error_traceback :: "string option"

record execution_metadata =
  execution_time :: real
  timestamp :: real
  metadata_model_name :: string
  metadata_model_version :: string

record zone_data =
  zone_alignment_value :: "string option"
  zone_confidence :: "real option"

record model_result =
  condition :: "string option"
  condition_name :: "string option"
  result_confidence :: "real option"
  severity :: "string option"
  arch_measurements :: "string \<rightharpoonup> real"
  zone_alignment :: "string \<rightharpoonup> zone_data"
  rearfoot_angle :: "real option"
  model_name :: "string option"
  model_version :: "string option"
  error :: "error_info option"
  error_text :: "string option"
  success :: "bool option"
  metadata :: "execution_metadata option"

text \<open>The empty dict \<open>{}\<close>.\<close>

definition empty_result :: model_result where
  "empty_result =
     \<lparr>condition = None, condition_name = None, result_confidence = None, severity = None,
      arch_measurements = Map.empty, zone_alignment = Map.empty, rearfoot_angle = None,
      model_name = None, model_version = None, error = None, error_text = None,
      success = None, metadata = None\<rparr>"

text \<open>
  Exceptions: the two classes of the module and every other \<open>Exception\<close>, each with its
  \<open>str(e)\<close>. (\<open>KeyboardInterrupt\<close> and \<open>SystemExit\<close> are not subclasses of \<open>Exception\<close>
  and are outside the model.)
\<close>

datatype exn = ValidationError string | ModelError string | OtherException string

text \<open>
  An image argument: a numpy array with its \<open>shape\<close>, or some other object. The list of
  images and each image may be \<open>None\<close>.
\<close>

datatype image = NdArray "nat list" | NotAnArray

text \<open>The object state of \<open>BaseFootModel\<close>.\<close>

record base_foot_model =
  name_attr :: string
  description :: string
  last_execution_time :: real
  last_error :: "string option"

definition get_version :: "base_foot_model \<Rightarrow> string" where
  "get_version self = ''1.0.0''"

text \<open>Decimal printing, for the \<open>f"..."\<close> messages of \<open>_validate_inputs\<close>.\<close>

definition digit_char :: "nat \<Rightarrow> char" where
  "digit_char d = char_of (48 + d)"

function str_nat :: "nat \<Rightarrow> string" where
  "str_nat n = (if n < 10 then [digit_char n] else str_nat (n div 10) @ [digit_char (n mod 10)])"
  by pat_completeness auto
termination
  by (relation "measure id") auto

text \<open>
  \<open>str(img.shape)\<close> for a shape of fewer than two dimensions, the only ones the message is
  built for: \<open>()\<close> and \<open>(n,)\<close>.
\<close>

definition str_shape :: "nat list \<Rightarrow> string" where
  "str_shape shape =
     (case shape of [] \<Rightarrow> ''()'' | n # _ \<Rightarrow> ''('' @ str_nat n @ '',)'')"

text \<open>\<open>BaseFootModel._validate_inputs\<close>: \<open>Inl\<close> is the exception raised.\<close>

fun validate_images :: "nat \<Rightarrow> image option list \<Rightarrow> exn + unit" where
  "validate_images i [] = Inr ()"
| "validate_images i (img # imgs) =
     (case img of
        None \<Rightarrow> Inl (ValidationError (''Image at index '' @ str_nat i @ '' is None''))
      | Some NotAnArray \<Rightarrow>
          Inl (ValidationError (''Image at index '' @ str_nat i @ '' is not a numpy array''))
      | Some (NdArray shape) \<Rightarrow>
          if length shape < 2 then
            Inl (ValidationError (''Image at index '' @ str_nat i
                   @ '' has invalid dimensions: '' @ str_shape shape))
          else validate_images (i + 1) imgs)"

definition validate_inputs ::
    "image option list option \<Rightarrow> (string \<rightharpoonup> real) option \<Rightarrow> exn + unit" where
  "validate_inputs images measurements =
     (case images of
        None \<Rightarrow> Inl (ValidationError ''No images provided'')
      | Some imgs \<Rightarrow>
          if length imgs = 0 then Inl (ValidationError ''No images provided'')
          else if measurements = None then Inl (ValidationError ''No measurements provided'')
          else validate_images 0 imgs)"

text \<open>
  \<open>BaseFootModel._post_process_results\<close>; the argument is \<open>None\<close> when the implementation
  returned \<open>None\<close>.
\<close>

definition post_process_results :: "base_foot_model \<Rightarrow> model_result option \<Rightarrow> model_result" where
  "post_process_results self results =
     (case results of
        None \<Rightarrow> empty_result
      | Some processed \<Rightarrow>
          (let p1 = (if model_name processed = None
                     then processed\<lparr>model_name := Some (name_attr self)\<rparr> else processed);
               p2 = (if model_version p1 = None
                     then p1\<lparr>model_version := Some (get_version self)\<rparr> else p1)
           in if result_confidence p2 = None then p2\<lparr>result_confidence := Some 0.8\<rparr> else p2))"

text \<open>
  \<open>BaseFootModel._create_error_response\<close>; \<open>now\<close> is the reading of \<open>time.time()\<close> taken
  inside it.
\<close>

definition create_error_response ::
    "base_foot_model \<Rightarrow> string \<Rightarrow> string \<Rightarrow> real \<Rightarrow> string option \<Rightarrow> real \<Rightarrow> model_result" where
  "create_error_response self etype emessage exec_time traceback now =
     empty_result
       \<lparr>model_name := Some (name_attr self),
        model_version := Some (get_version self),
        error := Some \<lparr>error_type = etype, error_message = emessage,
                       error_model_name = name_attr self, error_execution_time = exec_time,
                       error_timestamp = now, error_traceback = traceback\<rparr>,
        success := Some False\<rparr>"

text \<open>
  The \<open>try\<close> block of \<open>BaseFootModel.analyze\<close>. \<open>implementation\<close> is the subclass's
  \<open>_analyze_implementation\<close>: it raises (\<open>Inl\<close>) or returns a dict or \<open>None\<close>. The clock
  readings are parameters: \<open>start_time\<close> before the block, \<open>t_end\<close> where the execution
  time is taken, \<open>t_stamp\<close> for the timestamp.
\<close>

type_synonym implementation =
  "image option list option \<Rightarrow> (string \<rightharpoonup> real) option \<Rightarrow> exn + model_result option"

definition analyze_try ::
    "base_foot_model \<Rightarrow> implementation \<Rightarrow> image option list option \<Rightarrow> (string \<rightharpoonup> real) option
      \<Rightarrow> real \<Rightarrow> real \<Rightarrow> real \<Rightarrow> exn + model_result \<times> base_foot_model" where
  "analyze_try self implementation images measurements start_time t_end t_stamp =
     (case validate_inputs images measurements of
        Inl e \<Rightarrow> Inl e
      | Inr _ \<Rightarrow>
          (case implementation images measurements of
             Inl e \<Rightarrow> Inl e
           | Inr results \<Rightarrow>
               (let processed = post_process_results self results;
                    self' = self\<lparr>last_execution_time := t_end - start_time\<rparr>
                in Inr (processed\<lparr>metadata :=
                          Some \<lparr>execution_time = last_execution_time self',
                                timestamp = t_stamp,
                                metadata_model_name = name_attr self',
                                metadata_model_version = get_version self'\<rparr>\<rparr>,
                        self'))))"

text \<open>
  \<open>BaseFootModel.analyze\<close>: the \<open>try\<close> block and its three handlers. The result is \<open>Inl\<close>
  where an exception would leave the method. \<open>format_exc\<close> is the text of
  \<open>traceback.format_exc()\<close>.
\<close>

definition analyze ::
    "base_foot_model \<Rightarrow> implementation \<Rightarrow> image option list option \<Rightarrow> (string \<rightharpoonup> real) option
      \<Rightarrow> real \<Rightarrow> real \<Rightarrow> real \<Rightarrow> string \<Rightarrow> exn + model_result \<times> base_foot_model" where
  "analyze self0 implementation images measurements start_time t_end t_stamp format_exc =
     (let self = self0\<lparr>last_error := None\<rparr> in
      case analyze_try self implementation images measurements start_time t_end t_stamp of
        Inr r \<Rightarrow> Inr r
      | Inl (ValidationError e) \<Rightarrow>
          Inr (create_error_response self ''validation_error'' e (t_end - start_time) None t_stamp,
               self\<lparr>last_error := Some e\<rparr>)
      | Inl (ModelError e) \<Rightarrow>
          Inr (create_error_response self ''model_error'' e (t_end - start_time) None t_stamp,
               self\<lparr>last_error := Some e\<rparr>)
      | Inl (OtherException e) \<Rightarrow>
          Inr (create_error_response self ''unexpected_error'' e (t_end - start_time)
                 (Some format_exc) t_stamp,
               self\<lparr>last_error := Some e\<rparr>))"

section \<open>Diagnosis aggregator (ai\_diagnosis.py)\<close>

text \<open>\<open>FootDiagnosisModel._map_arch_type_to_pdf_terminology\<close>.\<close>

definition arch_type_mapping :: "(string \<times> string) list" where
  "arch_type_mapping =
     [(''high_arch'', ''High Arch''),
      (''flat_feet'', ''Flat Arch''),
      (''normal_arch'', ''Normal Arch''),
      (''flatfoot'', ''Flat Arch''),
      (''high arch'', ''High Arch''),
      (''normal foot structure'', ''Normal Arch'')]"

definition map_arch_type_to_pdf_terminology :: "string \<Rightarrow> string" where
  "map_arch_type_to_pdf_terminology arch_type =
     (case map_of arch_type_mapping (lower arch_type) of
        None \<Rightarrow> ''Normal Arch''
      | Some n \<Rightarrow> n)"

text \<open>\<open>dict.get(key, default)\<close> on an optional field.\<close>

definition get_or :: "'a option \<Rightarrow> 'a \<Rightarrow> 'a" where
  "get_or field d = (case field of None \<Rightarrow> d | Some v \<Rightarrow> v)"

definition severity_map :: "(string \<times> int) list" where
  "severity_map = [(''none'', 1), (''mild'', 2), (''moderate'', 3), (''severe'', 4)]"

text \<open>\<open>FootDiagnosisModel._determine_arch_degree\<close>.\<close>

definition determine_arch_degree :: "model_result \<Rightarrow> int" where
  "determine_arch_degree arch_result =
     (let cond = get_or (condition arch_result) ''normal_arch'';
          sev = get_or (severity arch_result) ''none'';
          measurements = arch_measurements arch_result;
          arch_height_index = get_or (measurements ''arch_height_index'') 0.25
      in if contains ''normal'' (lower cond) then 1
         else if contains ''flat'' (lower cond) \<or> contains ''pes planus'' (lower cond) then
           (if arch_height_index \<ge> 0.21 then 1
            else if arch_height_index \<ge> 0.18 then 2
            else if arch_height_index \<ge> 0.15 then 3
            else 4)
         else if contains ''high'' (lower cond) \<or> contains ''pes cavus'' (lower cond) then
           (if arch_height_index \<le> 0.34 then 1
            else if arch_height_index \<le> 0.38 then 2
            else if arch_height_index \<le> 0.42 then 3
            else 4)
         else get_or (map_of severity_map sev) 1)"

text \<open>
  \<open>FootDiagnosisModel._determine_zone_alignment\<close>. The first block returns only inside the
  \<open>pronation\<close>/\<open>supination\<close> branches and only for the three known zones; otherwise
  control falls through to the zone-specific data and the gait fallback.
\<close>

definition condition_alignment :: "string \<Rightarrow> model_result \<Rightarrow> string option" where
  "condition_alignment zone alignment_result =
     (let cond = lower (get_or (condition alignment_result) []) in
      if contains ''pronation'' cond then
        (if zone = ''hindfoot'' \<or> zone = ''midfoot'' then Some ''valgus''
         else if zone = ''forefoot'' then Some ''varus''
         else None)
      else if contains ''supination'' cond then
        (if zone = ''hindfoot'' \<or> zone = ''midfoot'' then Some ''varus''
         else if zone = ''forefoot'' then Some ''valgus''
         else None)
      else None)"

definition determine_zone_alignment :: "string \<Rightarrow> model_result \<Rightarrow> model_result \<Rightarrow> string" where
  "determine_zone_alignment zone alignment_result gait_result =
     (let default_alignment = ''neutral'';
          zone_specific = zone_alignment alignment_result zone
      in case (if zone_specific = None then condition_alignment zone alignment_result else None) of
           Some a \<Rightarrow> a
         | None \<Rightarrow>
             (let alignment_value =
                    (case zone_specific of
                       None \<Rightarrow> default_alignment
                     | Some z \<Rightarrow> get_or (zone_alignment_value z) default_alignment);
                  conf = (case zone_specific of None \<Rightarrow> 0.5 | Some z \<Rightarrow> get_or (zone_confidence z) 0.5)
              in if conf \<ge> 0.6 then alignment_value
                 else
                   (case (if zone = ''hindfoot'' then rearfoot_angle gait_result else None) of
                      None \<Rightarrow> default_alignment
                    | Some angle \<Rightarrow>
                        if angle < - 2 then ''varus''
                        else if angle > 2 then ''valgus''
                        else default_alignment)))"

text \<open>
  The medical-history part of \<open>_generate_default_patient_context\<close>. (The same function
  estimates height and weight from the advanced measurements; no rule reads them.)
\<close>

definition pathology_indicators :: "(string \<times> string list) list" where
  "pathology_indicators =
     [(''Diabetes'', [''diabetic foot'', ''neuropathy'', ''peripheral vascular disease'']),
      (''Arthritis'', [''midfoot arthritis'', ''rheumatoid arthritis'', ''osteoarthritis'']),
      (''Previous foot surgery'', [''surgical scar'', ''fusion'', ''implant'']),
      (''Gout'', [''gouty arthritis'', ''tophi'']),
      (''Peripheral Neuropathy'', [''neuropathy'', ''numbness'', ''tingling''])]"

definition add_history :: "string \<Rightarrow> string list \<Rightarrow> string \<times> string list \<Rightarrow> string list" where
  "add_history cond history entry =
     (if list_ex (\<lambda>indicator. contains (lower indicator) cond) (snd entry)
         \<and> fst entry \<notin> set history
      then history @ [fst entry] else history)"

definition generate_default_patient_context :: "(string \<times> model_result) list \<Rightarrow> patient_context" where
  "generate_default_patient_context models =
     \<lparr>medical_history =
        foldl (\<lambda>history model_data.
                 foldl (add_history (lower (get_or (condition_name (snd model_data)) [])))
                   history pathology_indicators)
          [] models,
      previous_foot_pain = False, leg_length_discrepancy = False, ulcer_history = False\<rparr>"

text \<open>
  The model loop of \<open>analyze_foot_images\<close>. A run is the id of an enabled model and what
  its \<open>analyze\<close> did: \<open>Inl\<close> the \<open>str(e)\<close> of the exception it raised, \<open>Inr\<close> the dict it
  returned. The loop state is \<open>(results['models'], primary_diagnosis, primary_confidence)\<close>.
\<close>

type_synonym run = "string \<times> (string + model_result)"

definition analysis_error :: "string \<Rightarrow> model_result" where
  "analysis_error e =
     empty_result\<lparr>error_text := Some e, condition := Some ''unknown'',
                  condition_name := Some ''Analysis Error'', result_confidence := Some 0.0\<rparr>"

definition run_model ::
    "(string \<times> model_result) list \<times> string option \<times> real \<Rightarrow> run
      \<Rightarrow> (string \<times> model_result) list \<times> string option \<times> real" where
  "run_model st r =
     (let models = fst st; primary_diagnosis = fst (snd st); primary_confidence = snd (snd st) in
      case snd r of
        Inr model_result \<Rightarrow>
          (let models' = AList.update (fst r) model_result models in
           if get_or (result_confidence model_result) 0 > primary_confidence then
             (let cn = get_or (condition_name model_result) [] in
              if \<not> contains ''normal'' (lower cn) \<and> get_or (severity model_result) ''none'' \<noteq> ''none''
              then (models', Some cn, get_or (result_confidence model_result) 0)
              else (models', primary_diagnosis, primary_confidence))
           else (models', primary_diagnosis, primary_confidence))
      | Inl e \<Rightarrow> (AList.update (fst r) (analysis_error e) models, primary_diagnosis, primary_confidence))"

text \<open>
  \<^verbatim>\<open>
  if (condition and 'normal' not in condition.lower() and
      severity != 'none' and confidence >= 0.6):
      pathologies.append(condition)
  \<close>
\<close>

definition collect_pathology :: "string list \<Rightarrow> string \<times> model_result \<Rightarrow> string list" where
  "collect_pathology found model_data =
     (let cn = get_or (condition_name (snd model_data)) [];
          sev = get_or (severity (snd model_data)) ''none'';
          conf = get_or (result_confidence (snd model_data)) 0
      in if cn \<noteq> [] \<and> \<not> contains ''normal'' (lower cn) \<and> sev \<noteq> ''none'' \<and> conf \<ge> 0.6
         then found @ [cn] else found)"

record structured_diagnosis =
  arch_type :: string
  arch_degree :: int
  alignment :: "string \<rightharpoonup> string"
  pathologies :: "string list"

text \<open>
  The part of \<open>server_format_results\<close> that the diagnosis and the rule engine determine.
  (The assessment text, the echoed measurements and the abbreviation map are left out.)
\<close>

record server_format_results =
  diagnosis :: string
  diagnosis_confidence :: real
  structured :: structured_diagnosis
  orthotic_recommendations :: recommendations

text \<open>The arch type name of one arch result, as lines 172 to 174 compute it.\<close>

definition arch_type_name_of :: "model_result \<Rightarrow> string" where
  "arch_type_name_of arch_type_result =
     map_arch_type_to_pdf_terminology (get_or (condition arch_type_result) ''normal_arch'')"

text \<open>\<open>results['models'].get(model_id, {}).get('result', {})\<close>.\<close>

definition model_result_of :: "(string \<times> model_result) list \<Rightarrow> string \<Rightarrow> model_result" where
  "model_result_of models model_id = get_or (map_of models model_id) empty_result"

text \<open>The body of the outer \<open>try\<close> of \<open>analyze_foot_images\<close>, from the model loop on.\<close>

definition comprehensive_analysis :: "run list \<Rightarrow> patient_context option \<Rightarrow> server_format_results" where
  "comprehensive_analysis runs patient_context =
     (let st = foldl run_model ([], None, 0) runs;
          models = fst st;
          primary_diagnosis = fst (snd st);
          primary_confidence = snd (snd st);
          arch_result = model_result_of models ''arch_type'';
          summary =
            (if primary_diagnosis \<noteq> None \<and> primary_diagnosis \<noteq> Some []
             then (get_or primary_diagnosis [], primary_confidence)
             else (get_or (condition_name arch_result) ''Normal Foot Structure'',
                   get_or (result_confidence arch_result) 0.9));
          arch_type_name = arch_type_name_of arch_result;
          degree = determine_arch_degree arch_result;
          alignment_result = model_result_of models ''pronation'';
          gait_result = model_result_of models ''gait'';
          zones =
            [''forefoot'' \<mapsto> determine_zone_alignment ''forefoot'' alignment_result gait_result,
             ''midfoot'' \<mapsto> determine_zone_alignment ''midfoot'' alignment_result gait_result,
             ''hindfoot'' \<mapsto> determine_zone_alignment ''hindfoot'' alignment_result gait_result];
          found = foldl collect_pathology [] models;
          ctx = (case patient_context of
                   None \<Rightarrow> Some (generate_default_patient_context models)
                 | Some c \<Rightarrow> Some c)
      in \<lparr>diagnosis = fst summary,
          diagnosis_confidence = snd summary,
          structured = \<lparr>arch_type = arch_type_name, arch_degree = degree,
                         alignment = zones, pathologies = found\<rparr>,
          orthotic_recommendations = apply_medical_rules arch_type_name degree zones found ctx\<rparr>)"

text \<open>The dict returned by the outer \<open>except\<close> handler.\<close>

definition static_fallback :: server_format_results where
  "static_fallback =
     \<lparr>diagnosis = ''Normal Foot Structure'',
      diagnosis_confidence = 0.70,
      structured = \<lparr>arch_type = ''Normal Arch'', arch_degree = 1,
                     alignment = [''forefoot'' \<mapsto> ''neutral'', ''midfoot'' \<mapsto> ''neutral'',
                                  ''hindfoot'' \<mapsto> ''neutral''],
                     pathologies = []\<rparr>,
      orthotic_recommendations = recommendations_init\<rparr>"

text \<open>
  \<open>FootDiagnosisModel.analyze_foot_images\<close>. \<open>preparation\<close> is the outcome of the steps
  before the model loop (image loading and measurement extraction, both outside this
  development): \<open>Inl\<close> when an exception left them, which the outer handler turns into the
  static fallback.
\<close>

definition analyze_foot_images ::
    "string + unit \<Rightarrow> run list \<Rightarrow> patient_context option \<Rightarrow> server_format_results" where
  "analyze_foot_images preparation runs patient_context =
     (case preparation of
        Inl e \<Rightarrow> static_fallback
      | Inr _ \<Rightarrow> comprehensive_analysis runs patient_context)"

text \<open>
  A failed model, as the aggregator can meet it: the call raised, or the wrapper of
  \<open>BaseFootModel.analyze\<close> returned its error record.
\<close>

datatype failure =
    Raised string
  | ErrorRecord base_foot_model string string real "string option" real

definition failure_outcome :: "failure \<Rightarrow> string + model_result" where
  "failure_outcome f =
     (case f of
        Raised e \<Rightarrow> Inl e
      | ErrorRecord self etype emessage exec_time traceback now \<Rightarrow>
          Inr (create_error_response self etype emessage exec_time traceback now))"

definition failed_runs :: "(string \<times> failure) list \<Rightarrow> run list" where
  "failed_runs fs = map (\<lambda>f. (fst f, failure_outcome (snd f))) fs"

section \<open>Notions used to state the properties\<close>

text \<open>
  The invariant of the recommendation lists: \<open>combined_list\<close> has one entry per entry of the
  two category lists, holds no other name, and the scored names are exactly its names.
\<close>

definition consistent :: "recommendations \<Rightarrow> bool" where
  "consistent r \<longleftrightarrow>
     length (combined_list r) = length (intrinsic r) + length (extrinsic r) \<and>
     set (combined_list r) \<subseteq> set (intrinsic r) \<union> set (extrinsic r) \<and>
     dom (confidence_scores r) = set (combined_list r)"

text \<open>The arch result that \<open>analyze_foot_images\<close> reads after the model loop.\<close>

definition arch_result_of :: "run list \<Rightarrow> model_result" where
  "arch_result_of runs = model_result_of (fst (foldl run_model ([], None, 0) runs)) ''arch_type''"

text \<open>What the model loop stores for a run: the dict returned, or its own error dict.\<close>

definition stored_result :: "string + model_result \<Rightarrow> model_result" where
  "stored_result outcome = (case outcome of Inl e \<Rightarrow> analysis_error e | Inr r \<Rightarrow> r)"

text \<open>
  The shape of a stored result of a failed model: either none of the keys the aggregator reads
  is present (the error record of the wrapper, or no result at all), or they are those of the
  error dict of the model loop.
\<close>

definition failed_result :: "model_result \<Rightarrow> bool" where
  "failed_result r \<longleftrightarrow>
     severity r = None \<and> zone_alignment r = Map.empty \<and> rearfoot_angle r = None \<and>
     (condition r = None \<and> condition_name r = None \<and> result_confidence r = None
      \<or> condition r = Some ''unknown'' \<and> condition_name r = Some ''Analysis Error''
          \<and> result_confidence r = Some 0)"

text \<open>
  The handler that an exception selects in \<open>BaseFootModel.analyze\<close>, its \<open>str(e)\<close>, and the
  exception that leaves the \<open>try\<close> block for given arguments (\<open>None\<close> when the block
  completes).
\<close>

definition exn_type :: "exn \<Rightarrow> string" where
  "exn_type e =
     (case e of ValidationError _ \<Rightarrow> ''validation_error''
      | ModelError _ \<Rightarrow> ''model_error''
      | OtherException _ \<Rightarrow> ''unexpected_error'')"

definition exn_message :: "exn \<Rightarrow> string" where
  "exn_message e = (case e of ValidationError m \<Rightarrow> m | ModelError m \<Rightarrow> m | OtherException m \<Rightarrow> m)"

definition raised_in_try ::
    "implementation \<Rightarrow> image option list option \<Rightarrow> (string \<rightharpoonup> real) option \<Rightarrow> exn option" where
  "raised_in_try implementation images measurements =
     (case validate_inputs images measurements of
        Inl e \<Rightarrow> Some e
      | Inr _ \<Rightarrow> (case implementation images measurements of Inl e \<Rightarrow> Some e | Inr _ \<Rightarrow> None))"

text \<open>
  Concrete inputs. All seven registered models return the error record of the wrapper; and
  six arch methods vote flat\_feet four times and normal\_arch twice, the two normal\_arch votes
  coming from the two heaviest methods with high confidence.
\<close>

definition all_error_records :: "(string \<times> failure) list" where
  "all_error_records =
     map (\<lambda>model_id.
            (model_id,
             ErrorRecord \<lparr>name_attr = model_id, description = [], last_execution_time = 0,
                           last_error = None\<rparr>
               ''model_error'' ''analysis failed'' 0 None 0))
       [''arch_type'', ''pronation'', ''pressure'', ''deformity'', ''gait'', ''footwear'',
        ''advanced_measurements'']"

definition scenario_d_votes :: classification_results where
  "scenario_d_votes =
     [(''arch_height_index'', \<lparr>classification = Some ''normal_arch'', confidence = Some 0.95\<rparr>),
      (''medial_arch_angle'', \<lparr>classification = Some ''normal_arch'', confidence = Some 0.95\<rparr>),
      (''chippaux_smirak_index'', \<lparr>classification = Some ''flat_feet'', confidence = Some 0.6\<rparr>),
      (''navicular_drop'', \<lparr>classification = Some ''flat_feet'', confidence = Some 0.6\<rparr>),
      (''arch_rigidity'', \<lparr>classification = Some ''flat_feet'', confidence = Some 0.6\<rparr>),
      (''dynamic_arch_response'', \<lparr>classification = Some ''flat_feet'', confidence = Some 0.6\<rparr>)]"

section \<open>The weighted ensemble classifier: properties\<close>

subsection \<open>The first maximal item\<close>

lemma max_from_mem: "max_from best xs \<in> set (best # xs)"
  by (induction xs arbitrary: best) auto

lemma max_from_mono: "snd best \<le> snd (max_from best xs)"
proof (induction xs arbitrary: best)
  case Nil then show ?case by simp
next
  case (Cons x xs)
  show ?case using Cons.IH[of x] Cons.IH[of best] by (auto intro: order_trans)
qed

lemma max_from_ge: "y \<in> set xs \<Longrightarrow> snd y \<le> snd (max_from best xs)"
proof (induction xs arbitrary: best)
  case Nil then show ?case by simp
next
  case (Cons x xs)
  show ?case
  proof (cases "y = x")
    case True
    have "snd x \<le> snd (if snd best < snd x then x else best)" by auto
    also have "\<dots> \<le> snd (max_from (if snd best < snd x then x else best) xs)"
      by (rule max_from_mono)
    finally show ?thesis using True by simp
  next
    case False
    then have "y \<in> set xs" using Cons.prems by simp
    then show ?thesis using Cons.IH by simp
  qed
qed

lemma py_max_by_value_Some:
  "items \<noteq> [] \<Longrightarrow> \<exists>w. py_max_by_value items = Some w \<and> w \<in> set items"
  using max_from_mem by (cases items) (auto simp: py_max_by_value_def simp del: set_simps)

lemma py_max_by_value_greatest:
  assumes "py_max_by_value items = Some w"
  shows "w \<in> set items \<and> (\<forall>y\<in>set items. snd y \<le> snd w)"
proof (cases items)
  case Nil
  then show ?thesis using assms by (simp add: py_max_by_value_def)
next
  case (Cons x xs)
  then have w: "w = max_from x xs" using assms by (simp add: py_max_by_value_def)
  have "w \<in> set items" using max_from_mem[of x xs] w Cons by simp
  moreover have "snd y \<le> snd w" if "y \<in> set items" for y
    using that Cons w max_from_mono[of x xs] max_from_ge[of y xs x] by auto
  ultimately show ?thesis by blast
qed

subsection \<open>The vote table keeps its three categories\<close>

lemma collect_vote_keys: "map fst (collect_vote weights votes entry) = map fst votes"
proof -
  have "k \<in> fst ` set votes" if "map_of votes k = Some v" for k v
    using that by (metis map_of_SomeD fst_conv image_eqI)
  then show ?thesis
    by (auto simp: collect_vote_def update_keys split: option.splits)
qed

lemma foldl_collect_vote_keys:
  "map fst (foldl (collect_vote weights) votes cs) = map fst votes"
  by (induction cs arbitrary: votes) (simp_all add: collect_vote_keys)

lemma votes_keys:
  "map fst (foldl (collect_vote weights) votes_init cs) = [''flat_feet'', ''normal_arch'', ''high_arch'']"
  by (simp add: foldl_collect_vote_keys votes_init_def)

lemma clamp_bounds:
  fixes x :: real
  shows "0.6 \<le> max 0.6 (min 0.95 x)" and "max 0.6 (min 0.95 x) \<le> 0.95"
  by (auto simp: max_def min_def)

lemma determine_overall_arch_type_Some:
  "\<exists>c conf. determine_overall_arch_type cs weights = Some (c, conf) \<and>
     c \<in> set [''flat_feet'', ''normal_arch'', ''high_arch''] \<and> 0.6 \<le> conf \<and> conf \<le> 0.95"
proof -
  let ?votes = "foldl (collect_vote weights) votes_init cs"
  have ne: "?votes \<noteq> []" using votes_keys[of weights cs] by auto
  then obtain w where w: "py_max_by_value ?votes = Some w" "w \<in> set ?votes"
    using py_max_by_value_Some by blast
  have "fst w \<in> set (map fst ?votes)" using w(2) by (simp del: votes_keys)
  then have key: "fst w \<in> set [''flat_feet'', ''normal_arch'', ''high_arch'']"
    by (simp only: votes_keys)
  have "map_of ?votes (fst w) \<noteq> None"
    using w(2) by (metis map_of_eq_None_iff image_eqI)
  then obtain v where v: "map_of ?votes (fst w) = Some v" by blast
  define x where "x = (if 0 < sum_list (map snd weights) then v / sum_list (map snd weights) else 0.7)"
  have "determine_overall_arch_type cs weights = Some (fst w, max 0.6 (min 0.95 x))"
    using w(1) v by (simp add: determine_overall_arch_type_def Let_def x_def)
  then show ?thesis using key clamp_bounds[of x] by blast
qed

lemma min_add_bounds:
  fixes base d :: real
  assumes "0.6 \<le> base" and "base \<le> 0.95" and "0 \<le> d"
  shows "0.6 \<le> min 0.95 (base + d) \<and> min 0.95 (base + d) \<le> 0.95"
  using assms by (auto simp: min_def)

lemma boost_bounds:
  assumes "0.6 \<le> base" and "base \<le> 0.95"
  shows "0.6 \<le> boost_confidence_with_agreement_analysis rs base \<and>
   boost_confidence_with_agreement_analysis rs base \<le> 0.95"
proof -
  define st where "st = foldl count_classification ([], 0) rs"
  show ?thesis
  proof (cases "py_max_by_value (fst st)")
    case None
    then have "boost_confidence_with_agreement_analysis rs base = base"
      by (simp add: boost_confidence_with_agreement_analysis_def st_def)
    then show ?thesis using assms by simp
  next
    case (Some most_common)
    show ?thesis
    proof (cases "snd st > 0")
      case False
      then have "boost_confidence_with_agreement_analysis rs base = base"
        using Some by (simp add: boost_confidence_with_agreement_analysis_def st_def)
      then show ?thesis using assms by simp
    next
      case True
      define a where "a = real (snd most_common) / real (snd st)"
      define d :: real where "d = (if a > 0.8 then 0.1 else if a > 0.6 then 0.05 else 0)"
      have "boost_confidence_with_agreement_analysis rs base = min 0.95 (base + d)"
        using Some True
        by (simp add: boost_confidence_with_agreement_analysis_def st_def[symmetric] d_def a_def)
      moreover have "0 \<le> d" by (simp add: d_def)
      ultimately show ?thesis using min_add_bounds[OF assms] by simp
    qed
  qed
qed

text \<open>
  Claim C8. For every non-empty collection of method results and every weight table, the
  classifier returns a winner and a confidence, and the confidence, after the base clamp and
  after the agreement boost, lies in the interval [0.6, 0.95].
\<close>

theorem classify_confidence_bounds:
  assumes "classification_results \<noteq> []"
  shows "\<exists>winner conf. classify classification_results weights = Some (winner, conf)
           \<and> 0.6 \<le> conf \<and> conf \<le> 0.95"
proof -
  obtain c b where d: "determine_overall_arch_type classification_results weights = Some (c, b)"
      and b: "0.6 \<le> b" "b \<le> 0.95"
    using determine_overall_arch_type_Some by blast
  show ?thesis using d boost_bounds[OF b] by (simp add: classify_def)
qed

theorem classify_confidence_bounds_witness:
  "scenario_d_votes \<noteq> [] \<and>
   (\<exists>winner conf. classify scenario_d_votes arch_weights = Some (winner, conf) \<and> 0.6 \<le> conf \<and> conf \<le> 0.95)"
proof -
  have ne: "scenario_d_votes \<noteq> []" by (simp add: scenario_d_votes_def)
  show ?thesis using ne classify_confidence_bounds[OF ne, of arch_weights] by blast
qed

text \<open>
  Claim C7, as amended. If the collection of results is empty, the classifier returns the
  first category in declared order, \<open>flat_feet\<close>, with confidence 0.6 when the weights sum
  to more than zero (the vote of the winner is then 0, and the clamp raises it to 0.6), and
  with confidence 0.7 only when the weights do not sum to more than zero.
\<close>

lemma classify_empty:
  "classify [] weights =
     Some (''flat_feet'', if sum_list (map snd weights) > 0 then 0.6 else 0.7)"
  by (simp add: classify_def determine_overall_arch_type_def votes_init_def py_max_by_value_def
      boost_confidence_with_agreement_analysis_def Let_def)

theorem classify_empty_witness:
  "classify [] arch_weights = Some (''flat_feet'', 0.6) \<and> classify [] [] = Some (''flat_feet'', 0.7)"
  using classify_empty[of arch_weights] classify_empty[of "[]"] by (simp add: arch_weights_def)

text \<open>
  The claim as stated (confidence 0.7 for empty results) fails for the weight table that
  \<open>ArchTypeModel.analyze\<close> passes.
\<close>

theorem empty_results_confidence_not_default:
  "classify [] arch_weights \<noteq> Some (''flat_feet'', 0.7)"
  by (simp add: classify_def determine_overall_arch_type_def votes_init_def py_max_by_value_def
      boost_confidence_with_agreement_analysis_def Let_def arch_weights_def)

subsection \<open>What the counting loop computes\<close>

lemma raw_classifications_simps:
  "raw_classifications [] = []"
  "raw_classifications (e # rs) =
     (case classification (snd e) of None \<Rightarrow> raw_classifications rs
      | Some c \<Rightarrow> c # raw_classifications rs)"
  by (simp_all add: raw_classifications_def map_filter_simps split: option.splits)

lemma count_loop_invariant:
  assumes "distinct (map fst counts)"
  shows "distinct (map fst (fst (foldl count_classification (counts, tot) rs))) \<and>
         snd (foldl count_classification (counts, tot) rs) = tot + length (raw_classifications rs) \<and>
         (\<forall>c. map_of (fst (foldl count_classification (counts, tot) rs)) c =
            (if c \<in> set (raw_classifications rs)
             then Some ((case map_of counts c of None \<Rightarrow> 0 | Some n \<Rightarrow> n) + count_list (raw_classifications rs) c)
             else map_of counts c))"
  using assms
proof (induction rs arbitrary: counts tot)
  case Nil
  then show ?case by (simp add: raw_classifications_simps)
next
  case (Cons e rs)
  show ?case
  proof (cases "classification (snd e)")
    case None
    then have "count_classification (counts, tot) e = (counts, tot)"
      by (simp add: count_classification_def)
    then show ?thesis using Cons.IH[OF Cons.prems, of tot] None
      by (simp add: raw_classifications_simps)
  next
    case (Some k)
    define counts' where
      "counts' = AList.update k ((case map_of counts k of None \<Rightarrow> 0 | Some n \<Rightarrow> n) + 1) counts"
    have step: "count_classification (counts, tot) e = (counts', tot + 1)"
      using Some by (simp add: count_classification_def counts'_def)
    have d: "distinct (map fst counts')"
      using Cons.prems by (simp add: counts'_def distinct_update)
    have m: "map_of counts' c = (if c = k then Some ((case map_of counts k of None \<Rightarrow> 0 | Some n \<Rightarrow> n) + 1) else map_of counts c)" for c
      by (simp add: counts'_def update_conv')
    show ?thesis
      using Cons.IH[OF d, of "tot + 1"] Some
      by (auto simp: step raw_classifications_simps m)
  qed
qed

lemma count_loop_result:
  fixes rs
  defines "st \<equiv> foldl count_classification ([], 0) rs"
  defines "cs \<equiv> raw_classifications rs"
  shows "snd st = length cs"
    and "set (fst st) = (\<lambda>c. (c, count_list cs c)) ` set cs"
proof -
  have inv: "distinct (map fst (fst st))" "snd st = length cs"
     "\<And>c. map_of (fst st) c = (if c \<in> set cs then Some (count_list cs c) else None)"
    using count_loop_invariant[of "[]" 0 rs] by (simp_all add: st_def cs_def)
  show "snd st = length cs" by (rule inv)
  show "set (fst st) = (\<lambda>c. (c, count_list cs c)) ` set cs"
  proof (rule set_eqI)
    fix p :: "string \<times> nat"
    have "p \<in> set (fst st) \<longleftrightarrow> map_of (fst st) (fst p) = Some (snd p)"
      using inv(1) by (metis map_of_eq_Some_iff prod.collapse)
    also have "\<dots> \<longleftrightarrow> p \<in> (\<lambda>c. (c, count_list cs c)) ` set cs"
      by (cases p) (auto simp: inv(3))
    finally show "p \<in> set (fst st) \<longleftrightarrow> p \<in> (\<lambda>c. (c, count_list cs c)) ` set cs" .
  qed
qed

lemma most_common_count:
  assumes "py_max_by_value (fst (foldl count_classification ([], 0) rs)) = Some w"
  shows "snd w = Max (count_list (raw_classifications rs) ` set (raw_classifications rs))"
proof -
  let ?cs = "raw_classifications rs"
  let ?st = "foldl count_classification ([], 0) rs"
  have s: "set (fst ?st) = (\<lambda>c. (c, count_list ?cs c)) ` set ?cs" by (rule count_loop_result)
  have g: "w \<in> set (fst ?st)" "\<forall>y\<in>set (fst ?st). snd y \<le> snd w"
    using py_max_by_value_greatest[OF assms] by simp_all
  have "snd w \<in> count_list ?cs ` set ?cs" using g(1) s by force
  moreover have "n \<le> snd w" if "n \<in> count_list ?cs ` set ?cs" for n
    using that g(2) s by force
  ultimately show ?thesis by (intro Max_eqI[symmetric]) auto
qed

text \<open>
  Claim C2, as amended. The agreement is the count of the most common raw classification
  among the results (whether or not it is the winning category of the weighted vote) divided
  by the count of results that carry a classification; if that fraction exceeds 0.8 the
  confidence is increased by 0.10, else if it exceeds 0.6 by 0.05, and the result is capped
  at 0.95. With six arch methods voting flat\_feet:4 / normal\_arch:2 the fraction is 4/6 and
  a +0.05 boost is applied to the base confidence.
\<close>

theorem boost_uses_most_common:
  "boost_confidence_with_agreement_analysis rs base =
     (let cs = raw_classifications rs in
      if cs = [] then base
      else min 0.95 (base +
             (let agreement = real (Max (count_list cs ` set cs)) / real (length cs) in
              if agreement > 0.8 then 0.1 else if agreement > 0.6 then 0.05 else 0)))"
proof -
  let ?cs = "raw_classifications rs"
  let ?st = "foldl count_classification ([], 0) rs"
  have n: "snd ?st = length ?cs" by (rule count_loop_result)
  have s: "set (fst ?st) = (\<lambda>c. (c, count_list ?cs c)) ` set ?cs" by (rule count_loop_result)
  show ?thesis
  proof (cases "?cs = []")
    case True
    then have "fst ?st = []" using s by simp
    then show ?thesis using True
      by (simp add: boost_confidence_with_agreement_analysis_def py_max_by_value_def)
  next
    case False
    then have "fst ?st \<noteq> []" using s by auto
    then obtain w where w: "py_max_by_value (fst ?st) = Some w"
      using py_max_by_value_Some by blast
    have pos: "snd ?st > 0" using n False by simp
    show ?thesis
      using False w pos most_common_count[OF w] n
      by (simp add: boost_confidence_with_agreement_analysis_def Let_def)
  qed
qed

theorem boost_uses_most_common_witness:
  "boost_confidence_with_agreement_analysis scenario_d_votes 0.6 = 0.65"
proof -
  have cs: "raw_classifications scenario_d_votes =
      [''normal_arch'', ''normal_arch'', ''flat_feet'', ''flat_feet'', ''flat_feet'', ''flat_feet'']"
    by (simp add: raw_classifications_def scenario_d_votes_def map_filter_simps)
  show ?thesis
    unfolding boost_uses_most_common[of scenario_d_votes "0.6"] cs
    by (simp add: Let_def)
qed

text \<open>
  The claim as stated fails: with six methods voting flat\_feet:4 / normal\_arch:2 the winner
  of the weighted vote can be \<open>normal_arch\<close>; the share of results that agree with that
  winner is 2/6, for which the wording of the specification gives no boost, while the source
  adds 0.05 because the most common label has a share of 4/6.
\<close>

theorem boost_not_winner_agreement:
  "classify scenario_d_votes arch_weights = Some (''normal_arch'', 0.65) \<and>
   boost_confidence_with_agreement_analysis scenario_d_votes 0.6
     \<noteq> spec_agreement_boost scenario_d_votes ''normal_arch'' 0.6"
  by (simp add: classify_def determine_overall_arch_type_def votes_init_def py_max_by_value_def
      boost_confidence_with_agreement_analysis_def Let_def scenario_d_votes_def arch_weights_def
      collect_vote_def count_classification_def spec_agreement_boost_def)

section \<open>The recommendation rule engine: properties\<close>

lemma add_recommendation_present:
  "n \<in> set (category_list cat r) \<Longrightarrow> add_recommendation n cat c p r = r"
  by (simp add: add_recommendation_def)

lemma add_recommendation_scores:
  "confidence_scores (add_recommendation m cat c p r) =
     (if m \<in> set (category_list cat r) then confidence_scores r
      else (confidence_scores r)(m \<mapsto> c))"
  by (cases cat) (simp_all add: add_recommendation_def category_append_def Let_def)

lemma add_recommendation_category_list:
  "category_list k (add_recommendation m cat c p r) =
     (if m \<notin> set (category_list cat r) \<and> k = cat then category_list k r @ [m]
      else category_list k r)"
  by (cases cat; cases k)
     (simp_all add: add_recommendation_def category_append_def category_list_def Let_def)

lemma add_recommendation_combined:
  "combined_list (add_recommendation m cat c p r) =
     (if m \<in> set (category_list cat r) then combined_list r else combined_list r @ [m])"
  by (cases cat) (simp_all add: add_recommendation_def category_append_def Let_def)

lemma add_addon_stable:
  assumes "n \<in> set (category_list cat r)"
    and "\<forall>c\<in>set calls. name c = n \<longrightarrow> category c = cat"
  shows "confidence_scores (foldl add_addon r calls) n = confidence_scores r n"
  using assms
proof (induction calls arbitrary: r)
  case Nil
  then show ?case by simp
next
  case (Cons c calls)
  have in_list: "n \<in> set (category_list cat (add_addon r c))"
    using Cons.prems(1) by (auto simp: add_addon_def add_recommendation_category_list)
  have same: "confidence_scores (add_addon r c) n = confidence_scores r n"
  proof (cases "name c = n")
    case True
    then have "category c = cat" using Cons.prems(2) by simp
    then show ?thesis using True Cons.prems(1)
      by (simp add: add_addon_def add_recommendation_present)
  next
    case False
    then show ?thesis by (simp add: add_addon_def add_recommendation_scores)
  qed
  show ?case using Cons.IH[OF in_list] Cons.prems(2) same by simp
qed

lemma add_addon_first_write:
  assumes "n \<notin> set (category_list cat r)"
    and "confidence_scores r n = None"
    and "\<forall>c\<in>set calls. name c = n \<longrightarrow> category c = cat"
  shows "confidence_scores (foldl add_addon r calls) n =
           map_option addon_confidence (find (\<lambda>c. name c = n) calls)"
  using assms
proof (induction calls arbitrary: r)
  case Nil
  then show ?case by simp
next
  case (Cons c calls)
  show ?case
  proof (cases "name c = n")
    case True
    then have cat: "category c = cat" using Cons.prems(3) by simp
    have in_list: "n \<in> set (category_list cat (add_addon r c))"
      using True cat Cons.prems(1) by (simp add: add_addon_def add_recommendation_category_list)
    have "confidence_scores (add_addon r c) n = Some (addon_confidence c)"
      using True cat Cons.prems(1) by (simp add: add_addon_def add_recommendation_scores)
    then show ?thesis
      using add_addon_stable[OF in_list, of calls] Cons.prems(3) True by simp
  next
    case False
    have "n \<notin> set (category_list cat (add_addon r c))"
      using False Cons.prems(1) by (auto simp: add_addon_def add_recommendation_category_list)
    moreover have "confidence_scores (add_addon r c) n = None"
      using False Cons.prems(2) by (simp add: add_addon_def add_recommendation_scores)
    ultimately show ?thesis using Cons.IH[of "add_addon r c"] Cons.prems(3) False by simp
  qed
qed

text \<open>
  Claim C4, as amended. \<open>add\<close> sets \<open>confidence_scores[name]\<close> whenever it appends \<open>name\<close> to
  the list of the given category, whether or not a score is already set. So for every
  sequence of add calls in which all calls for a name use the same category, the confidence
  recorded for that name equals the confidence argument of the first call for it (none if
  there is no such call); in particular \<open>add("X","intrinsic",0.9,primary)\<close> then
  \<open>add("X","intrinsic",0.5,secondary)\<close> leaves \<open>confidence_scores["X"] == 0.9\<close> and \<open>"X"\<close>
  only under primary.
\<close>

theorem add_first_write_wins_within_category:
  assumes "\<forall>c\<in>set calls. name c = n \<longrightarrow> category c = cat"
  shows "confidence_scores (foldl add_addon recommendations_init calls) n =
           map_option addon_confidence (find (\<lambda>c. name c = n) calls)"
proof -
  have 1: "n \<notin> set (category_list cat recommendations_init)"
    by (cases cat) (simp_all add: category_list_def recommendations_init_def)
  have 2: "confidence_scores recommendations_init n = None"
    by (simp add: recommendations_init_def)
  show ?thesis by (rule add_addon_first_write[OF 1 2 assms])
qed

theorem add_first_write_wins_within_category_witness:
  "(let r = add_recommendation ''X'' Intrinsic 0.5 False
              (add_recommendation ''X'' Intrinsic 0.9 True recommendations_init)
    in confidence_scores r ''X'' = Some 0.9 \<and> primary_recommendations r = [''X'']
       \<and> secondary_recommendations r = [] \<and> intrinsic r = [''X''] \<and> combined_list r = [''X''])"
proof -
  let ?calls = "[\<lparr>name = ''X'', category = Intrinsic, addon_confidence = 0.9, primary = True\<rparr>,
              \<lparr>name = ''X'', category = Intrinsic, addon_confidence = 0.5, primary = False\<rparr>]"
  let ?r = "add_recommendation ''X'' Intrinsic 0.5 False
              (add_recommendation ''X'' Intrinsic 0.9 True recommendations_init)"
  have h: "\<forall>c\<in>set ?calls. name c = ''X'' \<longrightarrow> category c = Intrinsic" by simp
  have "confidence_scores (foldl add_addon recommendations_init ?calls) ''X'' = Some 0.9"
    using add_first_write_wins_within_category[OF h] by simp
  then have a: "confidence_scores ?r ''X'' = Some 0.9"
    by (simp add: add_addon_def)
  have b: "primary_recommendations ?r = [''X'']
       \<and> secondary_recommendations ?r = [] \<and> intrinsic ?r = [''X''] \<and> combined_list ?r = [''X'']"
    by code_simp
  show ?thesis unfolding Let_def by (rule conjI[OF a b])
qed

text \<open>
  The claim as stated (first write wins regardless of later calls under any category) fails:
  a later add of the same name under the other category overwrites the confidence.
\<close>

theorem add_overwrites_across_categories:
  "confidence_scores
     (add_recommendation ''X'' Extrinsic 0.5 False
        (add_recommendation ''X'' Intrinsic 0.9 True recommendations_init)) ''X'' \<noteq> Some 0.9"
  by code_simp

subsection \<open>The invariant of the lists\<close>

lemma consistent_init: "consistent recommendations_init"
  by (simp add: consistent_def recommendations_init_def)

lemma category_lists:
  "intrinsic r = category_list Intrinsic r" "extrinsic r = category_list Extrinsic r"
  by (simp_all add: category_list_def)

lemma consistent_add_recommendation:
  assumes "consistent r"
  shows "consistent (add_recommendation m cat c p r)"
proof (cases "m \<in> set (category_list cat r)")
  case True
  then show ?thesis using assms by (simp add: add_recommendation_present)
next
  case False
  then show ?thesis using assms
    unfolding consistent_def category_lists
    by (cases cat) (auto simp: add_recommendation_category_list add_recommendation_combined
        add_recommendation_scores)
qed

lemma consistent_set_flag: "consistent r \<Longrightarrow> consistent (set_flag f r)"
  by (simp add: consistent_def set_flag_def)

lemma consistent_add_addons: "consistent r \<Longrightarrow> consistent (foldl add_addon r recs)"
  by (induction recs arbitrary: r) (simp_all add: add_addon_def consistent_add_recommendation)

lemma consistent_arch_rules: "consistent r \<Longrightarrow> consistent (arch_rules t d ctx r)"
  by (simp add: arch_rules_def Let_def consistent_add_recommendation consistent_set_flag)

lemma consistent_forefoot_rules: "consistent r \<Longrightarrow> consistent (forefoot_rules d al r)"
  by (simp add: forefoot_rules_def Let_def consistent_add_recommendation)

lemma consistent_midfoot_rules: "consistent r \<Longrightarrow> consistent (midfoot_rules t d al r)"
  by (simp add: midfoot_rules_def Let_def consistent_add_recommendation)

lemma consistent_hindfoot_rules: "consistent r \<Longrightarrow> consistent (hindfoot_rules d al r)"
  by (simp add: hindfoot_rules_def Let_def consistent_add_recommendation)

lemma consistent_pathology_rules: "consistent r \<Longrightarrow> consistent (pathology_rules ps r)"
  unfolding pathology_rules_def
  by (induction ps arbitrary: r) (simp_all add: consistent_add_addons)

lemma consistent_other_fold:
  "consistent r \<Longrightarrow>
   consistent (foldl (\<lambda>r entry. if snd entry then foldl add_addon r (table_get other_conditions_map (fst entry)) else r) r es)"
  by (induction es arbitrary: r) (simp_all add: consistent_add_addons)

lemma consistent_other_condition_rules:
  "consistent r \<Longrightarrow> consistent (other_condition_rules d ps ctx r)"
  unfolding other_condition_rules_def Let_def
  by (intro consistent_other_fold) (simp add: consistent_set_flag)

text \<open>
  Claim C10. After every run of the rule engine (any arch type, degree, alignment,
  pathologies and patient context), \<open>combined_list\<close> has exactly
  \<open>len(intrinsic) + len(extrinsic)\<close> entries, every entry of \<open>combined_list\<close> occurs in
  \<open>intrinsic\<close> or in \<open>extrinsic\<close>, and the key set of \<open>confidence_scores\<close> equals the set
  of names in \<open>combined_list\<close>.
\<close>

theorem apply_medical_rules_consistent:
  "length (combined_list (apply_medical_rules t d al ps ctx)) =
     length (intrinsic (apply_medical_rules t d al ps ctx))
       + length (extrinsic (apply_medical_rules t d al ps ctx)) \<and>
   set (combined_list (apply_medical_rules t d al ps ctx))
     \<subseteq> set (intrinsic (apply_medical_rules t d al ps ctx))
         \<union> set (extrinsic (apply_medical_rules t d al ps ctx)) \<and>
   dom (confidence_scores (apply_medical_rules t d al ps ctx))
     = set (combined_list (apply_medical_rules t d al ps ctx))"
proof -
  have "consistent (apply_medical_rules t d al ps ctx)"
    unfolding apply_medical_rules_def
    by (intro consistent_other_condition_rules consistent_pathology_rules
        consistent_hindfoot_rules consistent_midfoot_rules consistent_forefoot_rules
        consistent_arch_rules consistent_init)
  then show ?thesis by (simp add: consistent_def)
qed

theorem apply_medical_rules_consistent_witness:
  "combined_list (apply_medical_rules ''Flat Arch'' 4 [''hindfoot'' \<mapsto> ''valgus''] [''Hallux Valgus''] None)
     = [''MAS (Medial Arch Support)'', ''NAS (Navicular Arch Support)'', ''Posterior Medial Wedge'',
        ''SPW (Supinator Posterior Wedge)'', ''AS'', ''Anterior Medial Wedge'', ''Hallux Separator'']
   \<and> length (intrinsic (apply_medical_rules ''Flat Arch'' 4 [''hindfoot'' \<mapsto> ''valgus''] [''Hallux Valgus''] None))
      + length (extrinsic (apply_medical_rules ''Flat Arch'' 4 [''hindfoot'' \<mapsto> ''valgus''] [''Hallux Valgus''] None)) = 7
   \<and> dom (confidence_scores (apply_medical_rules ''Flat Arch'' 4 [''hindfoot'' \<mapsto> ''valgus''] [''Hallux Valgus''] None))
      = {''MAS (Medial Arch Support)'', ''NAS (Navicular Arch Support)'', ''Posterior Medial Wedge'',
        ''SPW (Supinator Posterior Wedge)'', ''AS'', ''Anterior Medial Wedge'', ''Hallux Separator''}"
proof -
  let ?r = "apply_medical_rules ''Flat Arch'' 4 [''hindfoot'' \<mapsto> ''valgus''] [''Hallux Valgus''] None"
  have c: "combined_list ?r
     = [''MAS (Medial Arch Support)'', ''NAS (Navicular Arch Support)'', ''Posterior Medial Wedge'',
        ''SPW (Supinator Posterior Wedge)'', ''AS'', ''Anterior Medial Wedge'', ''Hallux Separator'']"
    by code_simp
  have t: "length (combined_list ?r) = length (intrinsic ?r) + length (extrinsic ?r)"
      "dom (confidence_scores ?r) = set (combined_list ?r)"
    using apply_medical_rules_consistent[of "''Flat Arch''" 4 "[''hindfoot'' \<mapsto> ''valgus'']" "[''Hallux Valgus'']" None]
    by blast+
  have l: "length (intrinsic ?r) + length (extrinsic ?r) = 7"
    using t(1) unfolding c by simp
  have d: "dom (confidence_scores ?r) = {''MAS (Medial Arch Support)'', ''NAS (Navicular Arch Support)'', ''Posterior Medial Wedge'',
        ''SPW (Supinator Posterior Wedge)'', ''AS'', ''Anterior Medial Wedge'', ''Hallux Separator''}"
    unfolding t(2) c by (simp only: list.set)
  show ?thesis by (rule conjI[OF c conjI[OF l d]])
qed

text \<open>
  Claim C5. The claim says that the medical history \<open>["diabetes", "peripheral neuropathy"]\<close>
  sets \<open>flags.high_risk_foot\<close> and puts \<open>"Total Contact Orthotic"\<close> into \<open>intrinsic\<close>. The
  source tests list membership of the exact string \<open>"neuropathy"\<close>, so for this history
  (here with a normal arch, neutral alignment and no pathologies) neither happens.
\<close>

theorem diabetes_peripheral_neuropathy_not_flagged:
  "flags (apply_medical_rules ''Normal Arch'' 1 Map.empty []
            (Some \<lparr>medical_history = [''diabetes'', ''peripheral neuropathy''],
                   previous_foot_pain = False, leg_length_discrepancy = False,
                   ulcer_history = False\<rparr>)) ''high_risk_foot'' = None \<and>
   ''Total Contact Orthotic'' \<notin> set (intrinsic (apply_medical_rules ''Normal Arch'' 1 Map.empty []
            (Some \<lparr>medical_history = [''diabetes'', ''peripheral neuropathy''],
                   previous_foot_pain = False, leg_length_discrepancy = False,
                   ulcer_history = False\<rparr>)))"
  by code_simp

text \<open>The rule fires when the history holds the exact entries, in any letter case.\<close>

lemma diabetes_neuropathy_exact_entries:
  "flags (apply_medical_rules ''Normal Arch'' 1 Map.empty []
            (Some \<lparr>medical_history = [''Diabetes'', ''Neuropathy''],
                   previous_foot_pain = False, leg_length_discrepancy = False,
                   ulcer_history = False\<rparr>)) ''high_risk_foot'' = Some True \<and>
   ''Total Contact Orthotic'' \<in> set (intrinsic (apply_medical_rules ''Normal Arch'' 1 Map.empty []
            (Some \<lparr>medical_history = [''Diabetes'', ''Neuropathy''],
                   previous_foot_pain = False, leg_length_discrepancy = False,
                   ulcer_history = False\<rparr>)))"
  by code_simp

text \<open>
  The history that \<open>_generate_default_patient_context\<close> itself infers from a condition name
  containing \<open>neuropathy\<close> is \<open>["Diabetes", "Peripheral Neuropathy"]\<close>: the history of the
  claim, up to letter case.
\<close>

lemma default_context_history:
  "map lower (medical_history (generate_default_patient_context
     [(''pressure'', empty_result\<lparr>condition_name := Some ''Diabetic Neuropathy''\<rparr>)]))
   = [''diabetes'', ''peripheral neuropathy'']"
  by code_simp

section \<open>The normalising wrapper: properties\<close>

lemma analyze_try_raises:
  "raised_in_try impl images measurements = Some e \<Longrightarrow>
   analyze_try self impl images measurements t0 t1 t2 = Inl e"
  by (auto simp: raised_in_try_def analyze_try_def split: sum.splits)

lemma analyze_try_returns:
  "raised_in_try impl images measurements = None \<Longrightarrow>
   \<exists>r. analyze_try self impl images measurements t0 t1 t2 = Inr r"
  by (auto simp: raised_in_try_def analyze_try_def Let_def split: sum.splits)

lemma analyze_on_exception:
  assumes "raised_in_try impl images measurements = Some e"
  shows "analyze self impl images measurements t0 t1 t2 tb =
           Inr (create_error_response (self\<lparr>last_error := None\<rparr>) (exn_type e) (exn_message e) (t1 - t0)
                  (case e of OtherException _ \<Rightarrow> Some tb | _ \<Rightarrow> None) t2,
                self\<lparr>last_error := Some (exn_message e)\<rparr>)"
  using analyze_try_raises[OF assms, of "self\<lparr>last_error := None\<rparr>" t0 t1 t2]
  by (cases e) (simp_all add: analyze_def Let_def exn_type_def exn_message_def)

lemma validate_failures:
  "validate_inputs None m = Inl (ValidationError ''No images provided'')"
  "validate_inputs (Some []) m = Inl (ValidationError ''No images provided'')"
  "imgs \<noteq> [] \<Longrightarrow> validate_inputs (Some imgs) None = Inl (ValidationError ''No measurements provided'')"
  by (simp_all add: validate_inputs_def)

lemma validate_images_ok:
  "validate_images i imgs = Inr () \<longleftrightarrow>
     list_all (\<lambda>img. case img of Some (NdArray shape) \<Rightarrow> 2 \<le> length shape | _ \<Rightarrow> False) imgs"
  by (induction imgs arbitrary: i) (auto split: option.splits image.splits)

text \<open>
  Claim C9. For every input to \<open>BaseFootModel.analyze\<close> (including empty or missing images
  or measurements, malformed image shapes, and implementations that raise
  \<open>ValidationError\<close>, \<open>ModelError\<close> or any other exception), \<open>analyze\<close> returns a value and
  never raises; when an exception left the \<open>try\<close> block, the returned record is the
  structured error record with \<open>error.type\<close>, \<open>error.message\<close>, \<open>error.model_name\<close> and
  \<open>success = False\<close>.
\<close>

theorem analyze_never_raises:
  "\<exists>r self'. analyze self impl images measurements t0 t1 t2 tb = Inr (r, self') \<and>
     (\<forall>e. raised_in_try impl images measurements = Some e \<longrightarrow>
        success r = Some False \<and>
        map_option error_type (error r) = Some (exn_type e) \<and>
        map_option error_message (error r) = Some (exn_message e) \<and>
        map_option error_model_name (error r) = Some (name_attr self))"
proof (cases "raised_in_try impl images measurements")
  case None
  then obtain r where "analyze_try (self\<lparr>last_error := None\<rparr>) impl images measurements t0 t1 t2 = Inr r"
    using analyze_try_returns by blast
  then have "analyze self impl images measurements t0 t1 t2 tb = Inr (fst r, snd r)"
    by (simp add: analyze_def Let_def)
  then show ?thesis using None by auto
next
  case (Some e)
  show ?thesis
    unfolding analyze_on_exception[OF Some] using Some
    by (simp add: create_error_response_def empty_result_def)
qed

theorem analyze_never_raises_witness:
  "\<exists>r self'. analyze \<lparr>name_attr = ''Arch Type Analysis'', description = [], last_execution_time = 0, last_error = None\<rparr>
       (\<lambda>images measurements. Inr None) (Some []) (Some Map.empty) 10 12 13 ''trace'' = Inr (r, self')
     \<and> raised_in_try (\<lambda>images measurements. Inr None) (Some []) (Some Map.empty)
          = Some (ValidationError ''No images provided'')
     \<and> success r = Some False
     \<and> map_option error_type (error r) = Some ''validation_error''
     \<and> map_option error_message (error r) = Some ''No images provided''
     \<and> map_option error_model_name (error r) = Some ''Arch Type Analysis''"
proof -
  let ?self = "\<lparr>name_attr = ''Arch Type Analysis'', description = [], last_execution_time = 0, last_error = None\<rparr>"
  let ?impl = "\<lambda>images measurements. Inr None :: exn + model_result option"
  have raised: "raised_in_try ?impl (Some []) (Some Map.empty) = Some (ValidationError ''No images provided'')"
    by (simp add: raised_in_try_def validate_inputs_def)
  obtain r self' where
    a: "analyze ?self ?impl (Some []) (Some Map.empty) 10 12 13 ''trace'' = Inr (r, self')" and
    b: "\<forall>e. raised_in_try ?impl (Some []) (Some Map.empty) = Some e \<longrightarrow>
        success r = Some False \<and>
        map_option error_type (error r) = Some (exn_type e) \<and>
        map_option error_message (error r) = Some (exn_message e) \<and>
        map_option error_model_name (error r) = Some (name_attr ?self)"
    using analyze_never_raises[of ?self ?impl "Some []" "Some Map.empty" 10 12 13 "''trace''"] by blast
  from b raised have
    "success r = Some False \<and>
     map_option error_type (error r) = Some ''validation_error'' \<and>
     map_option error_message (error r) = Some ''No images provided'' \<and>
     map_option error_model_name (error r) = Some ''Arch Type Analysis''"
    by (simp add: exn_type_def exn_message_def)
  with a raised show ?thesis by blast
qed

section \<open>The diagnosis aggregator: properties\<close>

lemma structured_arch:
  "arch_type (structured (comprehensive_analysis runs ctx)) = arch_type_name_of (arch_result_of runs)"
  "arch_degree (structured (comprehensive_analysis runs ctx)) = determine_arch_degree (arch_result_of runs)"
  by (simp_all add: comprehensive_analysis_def arch_result_of_def Let_def)

lemma mapped_normal:
  "map_of arch_type_mapping k = Some ''Normal Arch'' \<Longrightarrow> contains ''normal'' k"
  by (simp add: arch_type_mapping_def split: if_splits)

text \<open>
  Claim C3, as amended. For every arch-model result whose condition code, lower-cased,
  contains \<open>normal\<close> or is one of the codes of the mapping table (an absent code counts as
  \<open>normal_arch\<close>), any severity and any measurements: if the StructuredDiagnosis produced by
  the aggregator has \<open>arch_type == "Normal Arch"\<close> then its \<open>arch_degree == 1\<close>.
\<close>

theorem normal_arch_degree_one:
  assumes "contains ''normal'' (lower (get_or (condition (arch_result_of runs)) ''normal_arch''))
           \<or> lower (get_or (condition (arch_result_of runs)) ''normal_arch'') \<in> set (map fst arch_type_mapping)"
    and "arch_type (structured (comprehensive_analysis runs ctx)) = ''Normal Arch''"
  shows "arch_degree (structured (comprehensive_analysis runs ctx)) = 1"
proof -
  define c where "c = lower (get_or (condition (arch_result_of runs)) ''normal_arch'')"
  have name: "(case map_of arch_type_mapping c of None \<Rightarrow> ''Normal Arch'' | Some n \<Rightarrow> n) = ''Normal Arch''"
    using assms(2) by (simp add: structured_arch arch_type_name_of_def map_arch_type_to_pdf_terminology_def c_def)
  have "contains ''normal'' c"
  proof (cases "contains ''normal'' c")
    case True
    then show ?thesis .
  next
    case False
    then have "c \<in> fst ` set arch_type_mapping" using assms(1) by (simp add: c_def)
    then have "map_of arch_type_mapping c \<noteq> None" by (simp only: map_of_eq_None_iff not_not)
    then obtain n where n: "map_of arch_type_mapping c = Some n" by blast
    then have "n = ''Normal Arch''" using name by simp
    then show ?thesis using n mapped_normal by blast
  qed
  then show ?thesis
    by (simp add: structured_arch determine_arch_degree_def Let_def c_def)
qed

theorem normal_arch_degree_one_witness:
  "lower (get_or (condition (arch_result_of
      [(''arch_type'', Inr (empty_result\<lparr>condition := Some ''Normal_Arch'', severity := Some ''severe''\<rparr>))])) ''normal_arch'')
     \<in> set (map fst arch_type_mapping) \<and>
   arch_type (structured (comprehensive_analysis
      [(''arch_type'', Inr (empty_result\<lparr>condition := Some ''Normal_Arch'', severity := Some ''severe''\<rparr>))] None))
     = ''Normal Arch'' \<and>
   arch_degree (structured (comprehensive_analysis
      [(''arch_type'', Inr (empty_result\<lparr>condition := Some ''Normal_Arch'', severity := Some ''severe''\<rparr>))] None))
     = 1"
proof -
  let ?runs = "[(''arch_type'', Inr (empty_result\<lparr>condition := Some ''Normal_Arch'', severity := Some ''severe''\<rparr>))]"
  have a: "lower (get_or (condition (arch_result_of ?runs)) ''normal_arch'') \<in> set (map fst arch_type_mapping)"
    by code_simp
  have b: "arch_type (structured (comprehensive_analysis ?runs None)) = ''Normal Arch''"
    by code_simp
  have c: "arch_degree (structured (comprehensive_analysis ?runs None)) = 1"
    by (rule normal_arch_degree_one[OF disjI2[OF a] b])
  show ?thesis by (rule conjI[OF a conjI[OF b c]])
qed

text \<open>
  The claim as stated (for any condition code, including unmapped ones) fails: the unmapped
  code \<open>unknown\<close> is named \<open>Normal Arch\<close> by the mapping's default, while the degree comes
  from the severity map.
\<close>

theorem unmapped_condition_degree_four:
  "arch_type (structured (comprehensive_analysis
      [(''arch_type'', Inr (empty_result\<lparr>condition := Some ''unknown'', severity := Some ''severe''\<rparr>))] None))
     = ''Normal Arch'' \<and>
   arch_degree (structured (comprehensive_analysis
      [(''arch_type'', Inr (empty_result\<lparr>condition := Some ''unknown'', severity := Some ''severe''\<rparr>))] None))
     \<noteq> 1"
  by code_simp

text \<open>
  Claim C6. The claim says that whenever the \<open>arch_height_index\<close> measurement is
  unavailable the degree is the severity map applied to the severity, as the comment above
  \<open>severity_map\<close> in the source says too. The source replaces a missing measurement by
  0.25, which both threshold tables send to degree 1: a flat-arch result of severity
  \<open>severe\<close> without measurements gets degree 1, not 4.
\<close>

theorem flat_without_measurement_degree:
  "determine_arch_degree (empty_result\<lparr>condition := Some ''flat_feet'', severity := Some ''severe''\<rparr>) = 1"
  by code_simp

text \<open>The two threshold tables of the claim hold when the measurement is present.\<close>

lemma flat_feet_degree_thresholds:
  assumes "condition r = Some ''flat_feet''"
    and "arch_measurements r ''arch_height_index'' = Some h"
  shows "determine_arch_degree r =
           (if h \<ge> 0.21 then 1 else if h \<ge> 0.18 then 2 else if h \<ge> 0.15 then 3 else 4)"
  using assms
  by (simp add: determine_arch_degree_def get_or_def lower_def lower_char_def Let_def)

lemma high_arch_degree_thresholds:
  assumes "condition r = Some ''high_arch''"
    and "arch_measurements r ''arch_height_index'' = Some h"
  shows "determine_arch_degree r =
           (if h \<le> 0.34 then 1 else if h \<le> 0.38 then 2 else if h \<le> 0.42 then 3 else 4)"
  using assms
  by (simp add: determine_arch_degree_def get_or_def lower_def lower_char_def Let_def)

subsection \<open>When every model failed\<close>

lemma failed_result_empty: "failed_result empty_result"
  by (simp add: failed_result_def empty_result_def)

lemma failed_result_analysis_error: "failed_result (analysis_error e)"
  by (simp add: failed_result_def analysis_error_def empty_result_def)

lemma failed_result_error_response:
  "failed_result (create_error_response self etype emessage exec_time tb now)"
  by (simp add: failed_result_def create_error_response_def empty_result_def)

lemma failed_result_stored: "failed_result (stored_result (failure_outcome f))"
  by (cases f)
     (simp_all add: stored_result_def failure_outcome_def failed_result_analysis_error
        failed_result_error_response)

lemma failed_result_confidence: "failed_result r \<Longrightarrow> \<not> get_or (result_confidence r) 0 > 0"
  by (auto simp: failed_result_def get_or_def)

lemma run_model_failed:
  "run_model (models, None, 0) (k, failure_outcome f) =
     (AList.update k (stored_result (failure_outcome f)) models, None, 0)"
proof (cases f)
  case (Raised e)
  then show ?thesis by (simp add: run_model_def failure_outcome_def stored_result_def)
next
  case (ErrorRecord self etype emessage exec_time tb now)
  have "\<not> get_or (result_confidence (create_error_response self etype emessage exec_time tb now)) 0 > 0"
    by (rule failed_result_confidence[OF failed_result_error_response])
  then show ?thesis using ErrorRecord
    by (simp add: run_model_def failure_outcome_def stored_result_def Let_def)
qed

lemma set_update_subset: "set (AList.update k v al) \<subseteq> insert (k, v) (set al)"
  by (induction al) auto

lemma failed_loop:
  assumes "\<forall>m\<in>set models. failed_result (snd m)"
  shows "\<exists>models'. foldl run_model (models, None, 0) (failed_runs fs) = (models', None, 0)
           \<and> (\<forall>m\<in>set models'. failed_result (snd m))"
  using assms
proof (induction fs arbitrary: models)
  case Nil
  then show ?case by (simp add: failed_runs_def)
next
  case (Cons f fs)
  let ?models = "AList.update (fst f) (stored_result (failure_outcome (snd f))) models"
  have "\<forall>m\<in>set ?models. failed_result (snd m)"
    using Cons.prems set_update_subset[of "fst f" "stored_result (failure_outcome (snd f))" models]
      failed_result_stored[of "snd f"] by auto
  from Cons.IH[OF this] show ?case
    using run_model_failed[of models "fst f" "snd f"] by (simp add: failed_runs_def)
qed

lemma model_result_of_failed:
  assumes "\<forall>m\<in>set models. failed_result (snd m)"
  shows "failed_result (model_result_of models k)"
proof (cases "map_of models k")
  case None
  then show ?thesis by (simp add: model_result_of_def get_or_def failed_result_empty)
next
  case (Some r)
  then have "(k, r) \<in> set models" by (rule map_of_SomeD)
  then show ?thesis using assms Some by (auto simp: model_result_of_def get_or_def)
qed

lemma lower_unknown: "lower ''unknown'' = ''unknown''" "lower ''normal_arch'' = ''normal_arch''"
  "lower [] = []"
  by (simp_all add: lower_def lower_char_def)

lemma failed_arch_type_name: "failed_result r \<Longrightarrow> arch_type_name_of r = ''Normal Arch''"
  by (auto simp: failed_result_def arch_type_name_of_def get_or_def lower_unknown
      map_arch_type_to_pdf_terminology_def arch_type_mapping_def)

lemma failed_arch_degree: "failed_result r \<Longrightarrow> determine_arch_degree r = 1"
  by (auto simp: failed_result_def determine_arch_degree_def get_or_def lower_unknown Let_def
      severity_map_def)

lemma failed_zone_alignment:
  assumes "failed_result a" and "failed_result g"
  shows "determine_zone_alignment z a g = ''neutral''"
proof -
  have "condition_alignment z a = None"
    using assms(1) by (auto simp: failed_result_def condition_alignment_def get_or_def lower_unknown)
  moreover have "zone_alignment a z = None" "rearfoot_angle g = None"
    using assms by (simp_all add: failed_result_def)
  ultimately show ?thesis by (simp add: determine_zone_alignment_def Let_def)
qed

lemma failed_collect_pathology:
  "\<forall>m\<in>set models. failed_result (snd m) \<Longrightarrow> foldl collect_pathology found models = found"
proof (induction models arbitrary: found)
  case Nil
  then show ?case by simp
next
  case (Cons m models)
  have "severity (snd m) = None" using Cons.prems by (simp add: failed_result_def)
  then have "collect_pathology found m = found"
    by (simp add: collect_pathology_def get_or_def Let_def)
  then show ?case using Cons by simp
qed

lemma failed_summary:
  assumes "failed_result r"
  shows "(get_or (condition_name r) ''Normal Foot Structure'', get_or (result_confidence r) 0.9)
           = (if condition_name r = None then (''Normal Foot Structure'', 0.9) else (''Analysis Error'', 0))"
  using assms by (auto simp: failed_result_def get_or_def)

lemma failed_models_lookup:
  "map_of (fst (foldl run_model (models, None, 0) (failed_runs fs))) k =
     (case map_of (rev fs) k of
        None \<Rightarrow> map_of models k
      | Some f \<Rightarrow> Some (stored_result (failure_outcome f)))"
proof (induction fs arbitrary: models)
  case Nil
  then show ?case by (simp add: failed_runs_def)
next
  case (Cons f fs)
  have step: "foldl run_model (models, None, 0) (failed_runs (f # fs)) =
      foldl run_model (AList.update (fst f) (stored_result (failure_outcome (snd f))) models, None, 0)
        (failed_runs fs)"
    using run_model_failed[of models "fst f" "snd f"] by (simp add: failed_runs_def)
  show ?case
    unfolding step Cons.IH
    by (cases f) (simp add: map_of_append map_add_def update_conv' split: option.splits)
qed

lemma stored_condition_name:
  "condition_name (stored_result (failure_outcome f)) =
     (case f of Raised e \<Rightarrow> Some ''Analysis Error'' | ErrorRecord m t msg x tb now \<Rightarrow> None)"
  by (cases f)
     (simp_all add: stored_result_def failure_outcome_def analysis_error_def
        create_error_response_def empty_result_def)

lemma failed_arch_condition_name:
  "condition_name (model_result_of (fst (foldl run_model ([], None, 0) (failed_runs fs))) ''arch_type'') =
     (case map_of (rev fs) ''arch_type'' of
        Some (Raised e) \<Rightarrow> Some ''Analysis Error''
      | _ \<Rightarrow> None)"
  by (simp add: model_result_of_def get_or_def failed_models_lookup stored_condition_name
      empty_result_def split: option.splits failure.splits)

text \<open>An exception that reaches the outer handler gives the static fallback.\<close>

lemma outer_handler_fallback:
  "analyze_foot_images (Inl e) runs ctx = static_fallback"
  by (simp add: analyze_foot_images_def)

text \<open>
  Claim C1, as amended. The aggregator never raises: an exception of a model is caught in
  the model loop, and the result below is a value for every input. When every specialized
  model failed (its call raised, or it returned the error record of the wrapper), the
  StructuredDiagnosis equals that of the static fallback (Normal Arch, degree 1, all zones
  neutral, no pathologies); the legacy diagnosis is \<open>"Normal Foot Structure"\<close> with
  confidence 0.9 when the arch model returned an error record or was not run, and
  \<open>"Analysis Error"\<close> with confidence 0.0 when the call of the arch model raised. The
  confidence 0.70 belongs to the fallback of the outer handler only.
\<close>

theorem all_models_failed_diagnosis:
  "structured (analyze_foot_images (Inr ()) (failed_runs fs) ctx) = structured static_fallback \<and>
   diagnosis (analyze_foot_images (Inr ()) (failed_runs fs) ctx) =
     (case map_of (rev fs) ''arch_type'' of
        Some (Raised e) \<Rightarrow> ''Analysis Error'' | _ \<Rightarrow> ''Normal Foot Structure'') \<and>
   diagnosis_confidence (analyze_foot_images (Inr ()) (failed_runs fs) ctx) =
     (case map_of (rev fs) ''arch_type'' of Some (Raised e) \<Rightarrow> 0 | _ \<Rightarrow> 0.9)"
proof -
  obtain models where loop: "foldl run_model ([], None, 0) (failed_runs fs) = (models, None, 0)"
    and failed: "\<forall>m\<in>set models. failed_result (snd m)"
    using failed_loop[of "[]" fs] by auto
  note f = model_result_of_failed[OF failed]
  have s: "structured (comprehensive_analysis (failed_runs fs) ctx) = structured static_fallback"
    by (simp add: comprehensive_analysis_def Let_def loop static_fallback_def
        failed_arch_type_name[OF f] failed_arch_degree[OF f] failed_zone_alignment[OF f f]
        failed_collect_pathology[OF failed])
  have d: "(diagnosis (comprehensive_analysis (failed_runs fs) ctx),
            diagnosis_confidence (comprehensive_analysis (failed_runs fs) ctx)) =
           (if condition_name (model_result_of models ''arch_type'') = None
            then (''Normal Foot Structure'', 0.9) else (''Analysis Error'', 0))"
    using failed_summary[OF f, of "''arch_type''"]
    by (simp add: comprehensive_analysis_def Let_def loop)
  have c: "condition_name (model_result_of models ''arch_type'') =
     (case map_of (rev fs) ''arch_type'' of Some (Raised e) \<Rightarrow> Some ''Analysis Error'' | _ \<Rightarrow> None)"
    using failed_arch_condition_name[of fs] by (simp add: loop)
  show ?thesis using s d unfolding c
    by (auto simp: analyze_foot_images_def split: option.splits failure.splits)
qed

theorem all_models_failed_diagnosis_witness:
  "diagnosis (analyze_foot_images (Inr ()) (failed_runs all_error_records) None) = ''Normal Foot Structure''
   \<and> diagnosis_confidence (analyze_foot_images (Inr ()) (failed_runs all_error_records) None) = 0.9
   \<and> structured (analyze_foot_images (Inr ()) (failed_runs all_error_records) None) = structured static_fallback"
proof -
  have m: "map_of (rev all_error_records) ''arch_type'' =
     Some (ErrorRecord \<lparr>name_attr = ''arch_type'', description = [], last_execution_time = 0,
                           last_error = None\<rparr>
               ''model_error'' ''analysis failed'' 0 None 0)"
    by (simp add: all_error_records_def)
  show ?thesis using all_models_failed_diagnosis[of all_error_records None] by (simp add: m)
qed

text \<open>
  The claim as stated fails: when all seven models return the error record of the wrapper,
  the confidence of the result is not that of the static fallback.
\<close>

theorem all_error_records_not_fallback:
  "diagnosis_confidence (analyze_foot_images (Inr ()) (failed_runs all_error_records) None)
     \<noteq> diagnosis_confidence static_fallback"
  by code_simp

end
